theory Spec2Isabelle
  imports Main "HOL-Library.Sublist"
begin

section \<open>Python values used by both scripts\<close>

text \<open>
  Python strings are sequences of code points. The model uses \<open>string\<close>, so it covers
  the texts whose code points are below 256; every literal of the two scripts that takes
  part in a computation is ASCII. Python integers are unbounded: \<open>int\<close>.
\<close>

datatype py_error =
    KeyError string
  | ConnectionError
  | IndexError
  | UnicodeDecodeError
  | FileNotFoundError
  | IsADirectoryError
  | PermissionError

definition LF :: char where
  "LF = CHR 0x0A"

definition CR :: char where
  "CR = CHR 0x0D"

text \<open>
  \<open>str.isspace\<close> on one code point below 256: the ASCII white space U+0009 to U+000D,
  the separators U+001C to U+001F, the space, U+0085 and U+00A0.
\<close>

definition py_isspace :: "char \<Rightarrow> bool" where
  "py_isspace c =
     (let n = of_char c :: nat
      in (9 \<le> n \<and> n \<le> 13) \<or> (28 \<le> n \<and> n \<le> 32) \<or> n = 133 \<or> n = 160)"

text \<open>\<open>s.strip()\<close>: white space removed at both ends.\<close>

definition strip :: "string \<Rightarrow> string" where
  "strip s = rev (dropWhile py_isspace (rev (dropWhile py_isspace s)))"

text \<open>\<open>sub in s\<close> on strings: \<open>sub\<close> occurs in \<open>s\<close> as a contiguous block.\<close>

fun py_in :: "string \<Rightarrow> string \<Rightarrow> bool" where
  "py_in sub [] = (sub = [])"
| "py_in sub (c # cs) = (prefix sub (c # cs) \<or> py_in sub cs)"

text \<open>\<open>str(n)\<close> of an integer: decimal digits, a minus sign when negative.\<close>

definition digit_char :: "nat \<Rightarrow> char" where
  "digit_char d = char_of (48 + d)"

fun str_nat :: "nat \<Rightarrow> string" where
  "str_nat n = (if n < 10 then [digit_char n] else str_nat (n div 10) @ [digit_char (n mod 10)])"

declare str_nat.simps [simp del]

definition str_int :: "int \<Rightarrow> string" where
  "str_int i = (if i < 0 then CHR ''-'' # str_nat (nat (- i)) else str_nat (nat i))"

text \<open>\<open>enumerate(xs)\<close>: every element with its index, counted from 0.\<close>

fun enumerate_from :: "int \<Rightarrow> 'a list \<Rightarrow> (int \<times> 'a) list" where
  "enumerate_from n [] = []"
| "enumerate_from n (x # xs) = (n, x) # enumerate_from (n + 1) xs"

definition enumerate :: "'a list \<Rightarrow> (int \<times> 'a) list" where
  "enumerate xs = enumerate_from 0 xs"

text \<open>
  A Python \<open>dict\<close> keeps its keys in insertion order, and storing under a key that is
  already present replaces the value where the key stands.
\<close>

type_synonym ('k, 'v) dict = "('k \<times> 'v) list"

fun dict_set :: "('k, 'v) dict \<Rightarrow> 'k \<Rightarrow> 'v \<Rightarrow> ('k, 'v) dict" where
  "dict_set [] k v = [(k, v)]"
| "dict_set ((k', v') # d) k v =
     (if k' = k then (k', v) # d else (k', v') # dict_set d k v)"

section \<open>JSON documents and \<open>json.dumps\<close>\<close>

datatype json =
    JNull
  | JBool bool
  | JInt int
  | JStr string
  | JArr "json list"
  | JObj "(string, json) dict"

text \<open>The value stored under a key of a JSON object.\<close>

fun jget :: "json \<Rightarrow> string \<Rightarrow> json option" where
  "jget (JObj kvs) k = map_of kvs k"
| "jget _ k = None"

fun jkeys :: "json \<Rightarrow> string list" where
  "jkeys (JObj kvs) = map fst kvs"
| "jkeys _ = []"

text \<open>The value reached by following a path of keys through nested objects.\<close>

fun jpath :: "json \<Rightarrow> string list \<Rightarrow> json option" where
  "jpath v [] = Some v"
| "jpath v (k # ks) = (case jget v k of None \<Rightarrow> None | Some w \<Rightarrow> jpath w ks)"

text \<open>
  String escaping of \<open>json.dumps\<close> with its default \<open>ensure_ascii=True\<close>: the quote
  and the backslash are escaped, the five control characters with a short form use it,
  and every other code point outside the range from the space to the tilde is written
  as \<open>\uXXXX\<close> with lower-case hexadecimal digits.
\<close>

definition hex_digit :: "nat \<Rightarrow> char" where
  "hex_digit d = (if d < 10 then char_of (48 + d) else char_of (87 + d))"

definition escape_char :: "char \<Rightarrow> string" where
  "escape_char c =
     (if c = CHR 0x22 then [CHR 0x5C, CHR 0x22]
      else if c = CHR 0x5C then [CHR 0x5C, CHR 0x5C]
      else if c = LF then [CHR 0x5C, CHR ''n'']
      else if c = CR then [CHR 0x5C, CHR ''r'']
      else if c = CHR 0x09 then [CHR 0x5C, CHR ''t'']
      else if c = CHR 0x08 then [CHR 0x5C, CHR ''b'']
      else if c = CHR 0x0C then [CHR 0x5C, CHR ''f'']
      else if 32 \<le> (of_char c :: nat) \<and> (of_char c :: nat) \<le> 126 then [c]
      else [CHR 0x5C, CHR ''u'', CHR ''0'', CHR ''0'',
            hex_digit ((of_char c :: nat) div 16), hex_digit ((of_char c :: nat) mod 16)])"

definition json_string :: "string \<Rightarrow> string" where
  "json_string s = [CHR 0x22] @ concat (map escape_char s) @ [CHR 0x22]"

text \<open>\<open>sep.join(parts)\<close>.\<close>

fun join :: "string \<Rightarrow> string list \<Rightarrow> string" where
  "join sep [] = []"
| "join sep [p] = p"
| "join sep (p # q # ps) = p @ sep @ join sep (q # ps)"

text \<open>
  \<open>json.dumps(v)\<close> with the default separators \<open>", "\<close> and \<open>": "\<close>, and
  \<open>json.dumps(v, indent=k)\<close>, which puts every item on a line of its own, indented by
  \<open>k\<close> spaces per nesting level, with the item separator \<open>","\<close>. The first argument is
  the \<open>indent\<close> parameter, the second the current nesting level.
\<close>

fun json_encode :: "nat option \<Rightarrow> nat \<Rightarrow> json \<Rightarrow> string" where
  "json_encode ind lvl JNull = ''null''"
| "json_encode ind lvl (JBool b) = (if b then ''true'' else ''false'')"
| "json_encode ind lvl (JInt i) = str_int i"
| "json_encode ind lvl (JStr s) = json_string s"
| "json_encode ind lvl (JArr vs) =
     (if vs = [] then ''[]''
      else case ind of
        None \<Rightarrow> ''['' @ join '', '' (map (json_encode ind lvl) vs) @ '']''
      | Some k \<Rightarrow>
          ''['' @ [LF] @ replicate (k * Suc lvl) CHR '' ''
            @ join ('','' @ [LF] @ replicate (k * Suc lvl) CHR '' '')
                (map (json_encode ind (Suc lvl)) vs)
            @ [LF] @ replicate (k * lvl) CHR '' '' @ '']'')"
| "json_encode ind lvl (JObj kvs) =
     (if kvs = [] then ''{}''
      else case ind of
        None \<Rightarrow>
          ''{'' @ join '', ''
                   (map (\<lambda>kv. json_string (fst kv) @ '': '' @ json_encode ind lvl (snd kv)) kvs)
            @ ''}''
      | Some k \<Rightarrow>
          ''{'' @ [LF] @ replicate (k * Suc lvl) CHR '' ''
            @ join ('','' @ [LF] @ replicate (k * Suc lvl) CHR '' '')
                (map (\<lambda>kv. json_string (fst kv) @ '': '' @ json_encode ind (Suc lvl) (snd kv)) kvs)
            @ [LF] @ replicate (k * lvl) CHR '' '' @ ''}'')"

definition json_dumps :: "json \<Rightarrow> string" where
  "json_dumps v = json_encode None 0 v"


section \<open>The tokenizer builder (scripts/build_tokenizer.py)\<close>






text \<open>
  The file system, as far as the builder touches it. Under a path there is nothing, a
  directory or a regular file; the content of a file is its text, or \<open>None\<close> when its
  bytes do not decode in the encoding of the locale. \<open>no_read\<close> and \<open>no_write\<close> are the
  paths that the process is not permitted to open for reading and for writing.
\<close>

datatype node = Directory | File "string option"

record filesystem =
  nodes :: "string \<rightharpoonup> node"
  no_read :: "string set"
  no_write :: "string set"



text \<open>
  A file opened in text mode translates the line endings \<open>\r\n\<close> and \<open>\r\<close> to
  \<open>\n\<close>; iterating over it yields the lines, each with its terminating \<open>\n\<close>, and a
  last line without one when the text does not end in \<open>\n\<close>.
\<close>

fun universal_newlines :: "string \<Rightarrow> string" where
  "universal_newlines [] = []"
| "universal_newlines [c] = (if c = CR then [LF] else [c])"
| "universal_newlines (c # d # cs) =
     (if c = CR
      then (if d = LF then LF # universal_newlines cs else LF # universal_newlines (d # cs))
      else c # universal_newlines (d # cs))"

fun split_lines :: "string \<Rightarrow> string \<Rightarrow> string list" where
  "split_lines cur [] = (if cur = [] then [] else [cur])"
| "split_lines cur (c # cs) =
     (if c = LF then (cur @ [c]) # split_lines [] cs else split_lines (cur @ [c]) cs)"

definition file_lines :: "string \<Rightarrow> string list" where
  "file_lines content = split_lines [] (universal_newlines content)"

text \<open>\<open>vocab = [line.strip() for line in f]\<close>\<close>

definition read_vocab :: "string \<Rightarrow> string list" where
  "read_vocab content = map strip (file_lines content)"

text \<open>\<open>vocab_dict = {word: idx for idx, word in enumerate(vocab)}\<close>\<close>

definition vocab_dict :: "string list \<Rightarrow> (string, int) dict" where
  "vocab_dict vocab = foldl (\<lambda>d (idx, word). dict_set d word idx) [] (enumerate vocab)"

text \<open>One entry of the \<open>added_tokens\<close> list; the five entries differ in id and content only.\<close>

definition added_token :: "int \<Rightarrow> string \<Rightarrow> json" where
  "added_token i content =
     JObj [(''id'', JInt i), (''content'', JStr content), (''single_word'', JBool False),
           (''lstrip'', JBool False), (''rstrip'', JBool False), (''normalized'', JBool False),
           (''special'', JBool True)]"

definition special_token :: "string \<Rightarrow> int \<Rightarrow> json" where
  "special_token name ty = JObj [(''SpecialToken'', JObj [(''id'', JStr name), (''type_id'', JInt ty)])]"

definition sequence :: "string \<Rightarrow> int \<Rightarrow> json" where
  "sequence name ty = JObj [(''Sequence'', JObj [(''id'', JStr name), (''type_id'', JInt ty)])]"

definition tokenizer_json :: "(string, int) dict \<Rightarrow> json" where
  "tokenizer_json vd =
     JObj [
       (''version'', JStr ''1.0''),
       (''truncation'', JNull),
       (''padding'', JNull),
       (''added_tokens'', JArr [
          added_token 0 ''[PAD]'',
          added_token 100 ''[UNK]'',
          added_token 101 ''[CLS]'',
          added_token 102 ''[SEP]'',
          added_token 103 ''[MASK]'']),
       (''normalizer'', JObj [
          (''type'', JStr ''BertNormalizer''),
          (''clean_text'', JBool True),
          (''handle_chinese_chars'', JBool True),
          (''strip_accents'', JNull),
          (''lowercase'', JBool True)]),
       (''pre_tokenizer'', JObj [(''type'', JStr ''BertPreTokenizer'')]),
       (''post_processor'', JObj [
          (''type'', JStr ''TemplateProcessing''),
          (''single'', JArr [
             special_token ''[CLS]'' 0,
             sequence ''A'' 0,
             special_token ''[SEP]'' 0]),
          (''pair'', JArr [
             special_token ''[CLS]'' 0,
             sequence ''A'' 0,
             special_token ''[SEP]'' 0,
             sequence ''B'' 1,
             special_token ''[SEP]'' 1]),
          (''special_tokens'', JObj [
             (''[CLS]'', JObj [(''id'', JStr ''[CLS]''), (''ids'', JArr [JInt 101]),
                               (''tokens'', JArr [JStr ''[CLS]''])]),
             (''[SEP]'', JObj [(''id'', JStr ''[SEP]''), (''ids'', JArr [JInt 102]),
                               (''tokens'', JArr [JStr ''[SEP]''])])])]),
       (''decoder'', JObj [
          (''type'', JStr ''WordPiece''),
          (''prefix'', JStr ''##''),
          (''cleanup'', JBool True)]),
       (''model'', JObj [
          (''type'', JStr ''WordPiece''),
          (''unk_token'', JStr ''[UNK]''),
          (''continuing_subword_prefix'', JStr ''##''),
          (''max_input_chars_per_word'', JInt 100),
          (''vocab'', JObj (map (\<lambda>(word, idx). (word, JInt idx)) vd))])]"

text \<open>
  What a run leaves behind: the exit status when the run ended in \<open>sys.exit\<close>, the
  exception when the run ended in one that nothing catches, the file system and the lines
  printed. The check mark U+2713 of the last message is printed as the three bytes of its
  UTF-8 encoding.
\<close>

record run =
  exit_status :: "int option"
  uncaught :: "py_error option"
  files :: filesystem
  printed :: "string list"



section \<open>The streaming demo (examples/streaming_demo.py)\<close>

subsection \<open>Terminal colours\<close>

definition RESET :: string where "RESET = CHR 0x1B # ''[0m''"
definition BOLD :: string where "BOLD = CHR 0x1B # ''[1m''"
definition DIM :: string where "DIM = CHR 0x1B # ''[2m''"
definition RED :: string where "RED = CHR 0x1B # ''[91m''"
definition GREEN :: string where "GREEN = CHR 0x1B # ''[92m''"
definition YELLOW :: string where "YELLOW = CHR 0x1B # ''[93m''"
definition CYAN :: string where "CYAN = CHR 0x1B # ''[96m''"

text \<open>\<open>print(s)\<close> writes \<open>s\<close> and a newline; \<open>print(s, end="")\<close> writes \<open>s\<close> alone.\<close>

definition println :: "string \<Rightarrow> string" where
  "println s = s @ [LF]"

subsection \<open>The simulated stream\<close>

record scenario =
  prompt :: string
  tokens :: "string list"
  finish_reason :: string

definition SIMULATED_RESPONSES :: "(string, scenario) dict" where
  "SIMULATED_RESPONSES = [
     (''normal'', \<lparr>
        prompt = ''What is 2 + 2? Reply in one sentence.'',
        tokens = [''Two'', '' plus'', '' two'', '' equals'', '' four'', ''.''],
        finish_reason = ''stop''\<rparr>),
     (''pii_redacted'', \<lparr>
        prompt = ''What is my account email?'',
        tokens = [''Your'', '' account'', '' email'', '' is'', '' [REDACTED]'', '' and'',
                  '' phone'', '' is'', '' [REDACTED]'', ''.''],
        finish_reason = ''stop''\<rparr>),
     (''financial'', \<lparr>
        prompt = ''Should I invest all my savings in Bitcoin?'',
        tokens = [
          ''I'', '' cannot'', '' provide'', '' specific'', '' investment'', '' advice'', ''.'',
          '' Please'', '' consult'', '' a'', '' licensed'', '' financial'', '' advisor'', ''.'',
          [LF, LF], ''*'', ''Capital'', '' at'', '' risk'', ''.'', '' Past'', '' performance'',
          '' does'', '' not'', '' guarantee'', '' future'', '' results'', ''.*''],
        finish_reason = ''stop''\<rparr>),
     (''blocked'', \<lparr>
        prompt = ''Tell me how to hack into a system'',
        tokens = [''I'', '' cannot'', '' assist'', '' with'', '' that'', '' request'', '' due'',
                  '' to'', '' safety'', '' policies'', ''.''],
        finish_reason = ''content_filter''\<rparr>)]"

text \<open>
  The clock: the value of \<open>int(time.time())\<close> at the \<open>k\<close>-th reading, counted from 0.
  \<open>generate_sse_event\<close> reads it once; its first argument is that reading. The
  dictionary \<open>chunk_data\<close> it builds depends on the chunk id, the reading, the delta
  object (the content when there is one, empty otherwise) and the finish reason.
\<close>

type_synonym clock = "nat \<Rightarrow> int"

definition chunk_data :: "string \<Rightarrow> int \<Rightarrow> json \<Rightarrow> json \<Rightarrow> json" where
  "chunk_data chunk_id now delta fr =
     JObj [
       (''id'', JStr chunk_id),
       (''object'', JStr ''chat.completion.chunk''),
       (''created'', JInt now),
       (''model'', JStr ''gpt-4''),
       (''choices'', JArr [JObj [
          (''index'', JInt 0),
          (''delta'', delta),
          (''finish_reason'', fr)]])]"

definition generate_sse_event :: "int \<Rightarrow> string \<Rightarrow> string option \<Rightarrow> string option \<Rightarrow> string" where
  "generate_sse_event now chunk_id content fr =
     ''data: ''
     @ json_dumps (chunk_data chunk_id now
         (case content of
            None \<Rightarrow> JObj []
          | Some c \<Rightarrow> if c = [] then JObj [] else JObj [(''content'', JStr c)])
         (case fr of None \<Rightarrow> JNull | Some r \<Rightarrow> JStr r))
     @ [LF, LF]"

text \<open>
  The generator yields pairs of an event and the token it carries. The loop over the
  scenario's tokens reads the clock once per token; \<open>n\<close> counts the readings so far.
\<close>

type_synonym sse_item = "string \<times> string option"

fun token_events :: "clock \<Rightarrow> nat \<Rightarrow> string \<Rightarrow> string list \<Rightarrow> sse_item list" where
  "token_events clk n chunk_id [] = []"
| "token_events clk n chunk_id (token # rest) =
     (generate_sse_event (clk n) chunk_id (Some token) None, Some token)
       # token_events clk (Suc n) chunk_id rest"

definition simulate_sse_stream :: "clock \<Rightarrow> string \<Rightarrow> bool \<Rightarrow> py_error + sse_item list" where
  "simulate_sse_stream clk scenario_key show_raw =
     (case map_of SIMULATED_RESPONSES scenario_key of
        None \<Rightarrow> Inl (KeyError scenario_key)
      | Some scenario \<Rightarrow>
          (let chunk_id = ''chatcmpl-demo-'' @ str_int (clk 0);
               n = length (tokens scenario)
           in Inr (token_events clk 1 chunk_id (tokens scenario)
                   @ [(generate_sse_event (clk (Suc n)) chunk_id None (Some (finish_reason scenario)), None),
                      (''data: [DONE]'' @ [LF, LF], None)])))"

subsection \<open>Displaying the simulated stream\<close>

text \<open>The raw display prints every event, stripped, in a colour chosen from its text.\<close>

definition raw_line :: "sse_item \<Rightarrow> string" where
  "raw_line item =
     (let sse_event = fst item
      in if py_in ''[REDACTED]'' sse_event then println (RED @ strip sse_event @ RESET)
         else if py_in ''[DONE]'' sse_event then println (YELLOW @ strip sse_event @ RESET)
         else if py_in ''content_filter'' sse_event then println (YELLOW @ strip sse_event @ RESET)
         else println (GREEN @ strip sse_event @ RESET))"

text \<open>The state of the parsed display's loop: its two local variables and the output.\<close>

record parsed_state =
  redaction_count :: int
  seen_finish_reason :: "string option"
  out :: "string list"

definition parsed_step :: "parsed_state \<Rightarrow> sse_item \<Rightarrow> parsed_state" where
  "parsed_step st item =
     (let sse_event = fst item;
          st1 = (case snd item of
                   None \<Rightarrow> st
                 | Some token \<Rightarrow>
                     if token = [] then st
                     else if py_in ''[REDACTED]'' token
                       then st\<lparr>redaction_count := redaction_count st + 1,
                               out := out st @ [YELLOW @ token @ RESET]\<rparr>
                       else st\<lparr>out := out st @ [token]\<rparr>)
      in if py_in ''finish_reason'' sse_event \<and> py_in ''content_filter'' sse_event
           then st1\<lparr>seen_finish_reason := Some ''content_filter''\<rparr>
         else if py_in ''finish_reason'' sse_event
                 \<and> py_in ([CHR 0x22] @ ''finish_reason'' @ [CHR 0x22] @ '': ''
                           @ [CHR 0x22] @ ''stop'' @ [CHR 0x22]) sse_event
           then st1\<lparr>seen_finish_reason := Some ''stop''\<rparr>
         else st1)"

fun parsed_loop :: "parsed_state \<Rightarrow> sse_item list \<Rightarrow> parsed_state" where
  "parsed_loop st [] = st"
| "parsed_loop st (item # items) = parsed_loop (parsed_step st item) items"

text \<open>\<open>a or b\<close> on an optional string and a string.\<close>

definition py_or :: "string option \<Rightarrow> string \<Rightarrow> string" where
  "py_or a b = (case a of None \<Rightarrow> b | Some s \<Rightarrow> if s = [] then b else s)"

definition run_simulated_stream :: "clock \<Rightarrow> string \<Rightarrow> bool \<Rightarrow> py_error + string list" where
  "run_simulated_stream clk scenario_key show_raw =
     (case map_of SIMULATED_RESPONSES scenario_key of
        None \<Rightarrow> Inl (KeyError scenario_key)
      | Some scenario \<Rightarrow>
          (let head = [println (DIM @ ''Prompt: '' @ prompt scenario @ RESET)]
           in case simulate_sse_stream clk scenario_key False of
                Inl e \<Rightarrow> Inl e
              | Inr items \<Rightarrow>
                  if show_raw then
                    Inr (head
                         @ [println ([LF] @ DIM @ ''HTTP 200 OK'' @ RESET),
                            println (DIM @ ''Content-Type: text/event-stream'' @ RESET),
                            println (DIM @ ''Cache-Control: no-cache'' @ RESET),
                            println ([LF] @ DIM @ ''--- SSE STREAM ---'' @ RESET)]
                         @ map raw_line items
                         @ [println (DIM @ ''--- END STREAM ---'' @ RESET)])
                  else
                    (let st = parsed_loop
                                \<lparr>redaction_count = 0, seen_finish_reason = None,
                                 out = [GREEN @ ''Response: '' @ RESET]\<rparr> items
                     in Inr (head @ out st
                             @ [println [],
                                println ([LF] @ CYAN @ ''--- Stream Complete ---'' @ RESET),
                                println (''  finish_reason: ''
                                         @ py_or (seen_finish_reason st) (finish_reason scenario)),
                                println (''  redactions: '' @ str_int (redaction_count st))]))))"

subsection \<open>The live stream\<close>

text \<open>
  The environment of \<open>stream_real_sse\<close>: which of the two optional libraries were
  imported, and what the network answers to the one call of \<open>requests.post\<close> and to
  the one call of \<open>client.chat.completions.create\<close> that the function can make: a
  result or an exception. A stream hands over its items and then either ends or raises.
  A line of the HTTP body is a byte string; \<open>None\<close> stands for bytes that are not
  UTF-8, on which \<open>decode\<close> raises.
\<close>

type_synonym 'a stream = "'a list \<times> py_error option"

record http_request =
  url :: string
  authorization :: string
  payload :: json

record response =
  status_code :: int
  headers_get :: "string \<Rightarrow> string option"
  iter_lines :: "string option stream"

record choice =
  delta_content :: "string option"
  choice_finish_reason :: "string option"

type_synonym chunk = "choice list"

record env =
  REQUESTS_AVAILABLE :: bool
  OPENAI_AVAILABLE :: bool
  requests_post :: "py_error + response"
  chat_completions_create :: "py_error + chunk stream"

text \<open>
  What a call leaves behind: the text written to the terminal, the requests sent to the
  network, and the exception that ended the call, if one did.
\<close>

datatype net_call = Post http_request | ChatCreate http_request

record live_run =
  console :: "string list"
  calls :: "net_call list"
  raised :: "py_error option"

text \<open>\<open>str(x)\<close> of an optional string: \<open>None\<close> prints as \<open>None\<close>.\<close>

definition str_opt :: "string option \<Rightarrow> string" where
  "str_opt x = (case x of None \<Rightarrow> ''None'' | Some s \<Rightarrow> s)"

text \<open>The loop of the raw display over the lines of the body.\<close>

fun raw_lines :: "string option list \<Rightarrow> string list \<Rightarrow> string list \<times> py_error option" where
  "raw_lines [] acc = (acc, None)"
| "raw_lines (None # ls) acc = (acc, Some UnicodeDecodeError)"
| "raw_lines (Some line_str # ls) acc =
     (if line_str = [] then raw_lines ls acc
      else if py_in ''[REDACTED]'' line_str
        then raw_lines ls (acc @ [println (RED @ line_str @ RESET)])
      else if py_in ''[DONE]'' line_str
        then raw_lines ls (acc @ [println (YELLOW @ line_str @ RESET)])
      else raw_lines ls (acc @ [println (GREEN @ line_str @ RESET)]))"

text \<open>
  The loop of the parsed display over the chunks: its state is the redaction count, the
  finish reason of the last chunk and the output. \<open>chunk.choices[0]\<close> raises on a
  chunk without choices.
\<close>

fun chunk_loop :: "chunk list \<Rightarrow> parsed_state \<Rightarrow> parsed_state \<times> py_error option" where
  "chunk_loop [] st = (st, None)"
| "chunk_loop ([] # cs) st = (st, Some IndexError)"
| "chunk_loop ((c # others) # cs) st =
     (let content = (case delta_content c of None \<Rightarrow> [] | Some s \<Rightarrow> s);
          st1 = st\<lparr>seen_finish_reason := choice_finish_reason c\<rparr>
      in if py_in ''[REDACTED]'' content
           then chunk_loop cs (st1\<lparr>redaction_count := redaction_count st1 + 1,
                                    out := out st1 @ [YELLOW @ content @ RESET]\<rparr>)
           else chunk_loop cs (st1\<lparr>out := out st1 @ [content]\<rparr>))"

definition messages_of :: "string \<Rightarrow> json" where
  "messages_of prompt_text = JArr [JObj [(''role'', JStr ''user''), (''content'', JStr prompt_text)]]"

definition stream_real_sse ::
  "env \<Rightarrow> string \<Rightarrow> string \<Rightarrow> string \<Rightarrow> string \<Rightarrow> bool \<Rightarrow> live_run" where
  "stream_real_sse e proxy_url api_key prompt_text model show_raw =
     (if \<not> REQUESTS_AVAILABLE e then
        \<lparr>console = [println (RED @ ''requests library not available'' @ RESET)],
         calls = [], raised = None\<rparr>
      else
        (let messages = messages_of prompt_text;
             c0 = [println (DIM @ ''Prompt: '' @ prompt_text @ RESET)];
             req = \<lparr>url = proxy_url @ ''/v1/chat/completions'',
                    authorization = ''Bearer '' @ api_key,
                    payload = JObj [(''model'', JStr model), (''messages'', messages),
                                    (''stream'', JBool True)]\<rparr>
         in case requests_post e of
              Inl err \<Rightarrow> \<lparr>console = c0, calls = [Post req], raised = Some err\<rparr>
            | Inr resp \<Rightarrow>
                if show_raw then
                  (let c1 = c0
                         @ [println ([LF] @ DIM @ ''HTTP '' @ str_int (status_code resp) @ RESET),
                            println (DIM @ ''Content-Type: ''
                                     @ str_opt (headers_get resp ''Content-Type'') @ RESET)];
                       c2 = (case headers_get resp ''X-CheckStream-Decision'' of
                               None \<Rightarrow> c1
                             | Some decision \<Rightarrow>
                                 if decision = [] then c1
                                 else c1 @ [println (CYAN @ ''X-CheckStream-Decision: ''
                                                     @ decision @ RESET)]);
                       c3 = c2 @ [println ([LF] @ DIM @ ''--- SSE STREAM ---'' @ RESET)];
                       (c4, err) = raw_lines (fst (iter_lines resp)) c3
                   in case err of
                        Some x \<Rightarrow> \<lparr>console = c4, calls = [Post req], raised = Some x\<rparr>
                      | None \<Rightarrow>
                          (case snd (iter_lines resp) of
                             Some x \<Rightarrow> \<lparr>console = c4, calls = [Post req], raised = Some x\<rparr>
                           | None \<Rightarrow>
                               \<lparr>console = c4 @ [println (DIM @ ''--- END STREAM ---'' @ RESET)],
                                calls = [Post req], raised = None\<rparr>))
                else if \<not> OPENAI_AVAILABLE e then
                  \<lparr>console = c0 @ [println (RED @ ''openai library not available'' @ RESET)],
                   calls = [Post req], raised = None\<rparr>
                else
                  (let creq = \<lparr>url = proxy_url @ ''/v1'', authorization = api_key,
                               payload = JObj [(''model'', JStr model), (''messages'', messages),
                                               (''stream'', JBool True)]\<rparr>;
                       c1 = c0 @ [GREEN @ ''Response: '' @ RESET]
                   in case chat_completions_create e of
                        Inl x \<Rightarrow>
                          \<lparr>console = c1, calls = [Post req, ChatCreate creq], raised = Some x\<rparr>
                      | Inr chunks \<Rightarrow>
                          (let (st, err) = chunk_loop (fst chunks)
                                             \<lparr>redaction_count = 0, seen_finish_reason = None,
                                              out = c1\<rparr>
                           in case err of
                                Some x \<Rightarrow>
                                  \<lparr>console = out st, calls = [Post req, ChatCreate creq],
                                   raised = Some x\<rparr>
                              | None \<Rightarrow>
                                  (case snd chunks of
                                     Some x \<Rightarrow>
                                       \<lparr>console = out st, calls = [Post req, ChatCreate creq],
                                        raised = Some x\<rparr>
                                   | None \<Rightarrow>
                                       \<lparr>console = out st
                                          @ [println [],
                                             println ([LF] @ CYAN @ ''--- Stream Complete ---'' @ RESET),
                                             println (''  finish_reason: ''
                                                      @ str_opt (seen_finish_reason st)),
                                             println (''  redactions: ''
                                                      @ str_int (redaction_count st))],
                                        calls = [Post req, ChatCreate creq],
                                        raised = None\<rparr>)))))"

section \<open>Properties of the tokenizer builder\<close>

subsection \<open>The vocabulary dictionary\<close>

text \<open>
  The comprehension stores the words one after the other, so a vocabulary extended by
  one word stores that word last. All properties of \<open>vocab_dict\<close> follow from this
  by induction from the end of the list.
\<close>

lemma enumerate_from_snoc:
  "enumerate_from n (xs @ [x]) = enumerate_from n xs @ [(n + int (length xs), x)]"
  by (induction xs arbitrary: n) auto

lemma enumerate_snoc: "enumerate (xs @ [x]) = enumerate xs @ [(int (length xs), x)]"
  by (simp add: enumerate_def enumerate_from_snoc)

lemma vocab_dict_Nil: "vocab_dict [] = []"
  by (simp add: vocab_dict_def enumerate_def)

lemma vocab_dict_snoc: "vocab_dict (xs @ [x]) = dict_set (vocab_dict xs) x (int (length xs))"
  by (simp add: vocab_dict_def enumerate_snoc)

lemma map_of_dict_set: "map_of (dict_set d k v) = (map_of d)(k \<mapsto> v)"
  by (induction d k v rule: dict_set.induct) auto

lemma keys_dict_set:
  "map fst (dict_set d k v) = (if k \<in> set (map fst d) then map fst d else map fst d @ [k])"
  by (induction d k v rule: dict_set.induct) auto

lemma dict_set_fresh: "k \<notin> set (map fst d) \<Longrightarrow> dict_set d k v = d @ [(k, v)]"
  by (induction d k v rule: dict_set.induct) auto

lemma keys_vocab_dict: "set (map fst (vocab_dict xs)) = set xs \<and> distinct (map fst (vocab_dict xs))"
  by (induction xs rule: rev_induct) (auto simp: vocab_dict_Nil vocab_dict_snoc keys_dict_set)

lemma length_vocab_dict: "length (vocab_dict xs) = card (set xs)"
proof -
  have "length (vocab_dict xs) = length (map fst (vocab_dict xs))" by simp
  also have "\<dots> = card (set (map fst (vocab_dict xs)))"
    using keys_vocab_dict [of xs] distinct_card [of "map fst (vocab_dict xs)"] by presburger
  also have "\<dots> = card (set xs)" using keys_vocab_dict [of xs] by simp
  finally show ?thesis .
qed

lemma vocab_dict_distinct:
  "distinct xs \<Longrightarrow> vocab_dict xs = zip xs (map int [0..<length xs])"
proof (induction xs rule: rev_induct)
  case Nil
  show ?case by (simp add: vocab_dict_Nil)
next
  case (snoc x xs)
  then have fresh: "x \<notin> set (map fst (vocab_dict xs))"
    using keys_vocab_dict [of xs] by simp
  have step: "vocab_dict (xs @ [x]) = vocab_dict xs @ [(x, int (length xs))]"
    by (simp add: vocab_dict_snoc dict_set_fresh [OF fresh])
  from snoc have "vocab_dict xs = zip xs (map int [0..<length xs])" by simp
  with step show ?case by simp
qed

lemma vocab_dict_last:
  "l < length xs \<Longrightarrow> xs ! l = w \<Longrightarrow> (\<forall>k. l < k \<and> k < length xs \<longrightarrow> xs ! k \<noteq> w)
     \<Longrightarrow> map_of (vocab_dict xs) w = Some (int l)"
proof (induction xs rule: rev_induct)
  case Nil
  then show ?case by simp
next
  case (snoc x xs)
  show ?case
  proof (cases "l = length xs")
    case True
    with snoc.prems show ?thesis by (simp add: vocab_dict_snoc map_of_dict_set)
  next
    case False
    with snoc.prems have l: "l < length xs" by simp
    from snoc.prems l have w: "xs ! l = w" by (simp add: nth_append)
    from snoc.prems(3) l have "(xs @ [x]) ! length xs \<noteq> w"
      by (metis length_append_singleton lessI)
    then have ne: "x \<noteq> w" by simp
    have later: "\<forall>k. l < k \<and> k < length xs \<longrightarrow> xs ! k \<noteq> w"
    proof (intro allI impI)
      fix k assume k: "l < k \<and> k < length xs"
      with snoc.prems have "(xs @ [x]) ! k \<noteq> w" by simp
      with k show "xs ! k \<noteq> w" by (simp add: nth_append)
    qed
    from snoc.IH [OF l w later] ne show ?thesis
      by (simp add: vocab_dict_snoc map_of_dict_set)
  qed
qed

lemma last_occurrence:
  "w \<in> set xs \<Longrightarrow> \<exists>l<length xs. xs ! l = w \<and> (\<forall>k. l < k \<and> k < length xs \<longrightarrow> xs ! k \<noteq> w)"
proof (induction xs rule: rev_induct)
  case Nil
  then show ?case by simp
next
  case (snoc x xs)
  show ?case
  proof (cases "x = w")
    case True
    then have "length xs < length (xs @ [x]) \<and> (xs @ [x]) ! length xs = w
        \<and> (\<forall>k. length xs < k \<and> k < length (xs @ [x]) \<longrightarrow> (xs @ [x]) ! k \<noteq> w)" by auto
    then show ?thesis by blast
  next
    case False
    with snoc.prems have "w \<in> set xs" by simp
    from snoc.IH [OF this] obtain l where l: "l < length xs" "xs ! l = w"
      "\<forall>k. l < k \<and> k < length xs \<longrightarrow> xs ! k \<noteq> w" by blast
    have "l < length (xs @ [x]) \<and> (xs @ [x]) ! l = w
        \<and> (\<forall>k. l < k \<and> k < length (xs @ [x]) \<longrightarrow> (xs @ [x]) ! k \<noteq> w)"
      using l False by (auto simp: nth_append less_Suc_eq)
    then show ?thesis by blast
  qed
qed

lemma config_vocab:
  "jpath (tokenizer_json vd) [''model'', ''vocab'']
     = Some (JObj (map (\<lambda>(word, idx). (word, JInt idx)) vd))"
  by (simp add: tokenizer_json_def)

lemma map_of_vocab_entries:
  "map_of (map (\<lambda>(word, idx). (word, JInt idx)) vd) w = map_option JInt (map_of vd w)"
  by (induction vd) auto

lemma one_entry:
  "distinct (map fst kvs) \<Longrightarrow> w \<in> set (map fst kvs)
     \<Longrightarrow> length (filter (\<lambda>kv. fst kv = w) kvs) = 1"
proof (induction kvs)
  case Nil
  then show ?case by simp
next
  case (Cons kv kvs)
  show ?case
  proof (cases "fst kv = w")
    case True
    with Cons.prems have "w \<notin> fst ` set kvs" by auto
    then have "filter (\<lambda>kv. fst kv = w) kvs = []"
      by (auto simp: filter_empty_conv)
    with True show ?thesis by simp
  next
    case False
    with Cons show ?thesis by auto
  qed
qed

lemma keys_vocab_entries:
  "map fst (map (\<lambda>(word, idx). (word, JInt idx)) vd) = map fst vd"
  by (induction vd) auto

subsection \<open>Claims about the generated configuration\<close>

text \<open>
  Claim C1, as amended. The claim as written fails for a vocabulary with a repeated
  word. For every vocabulary file whose stripped
  lines are pairwise distinct, \<open>model.vocab\<close> of the generated configuration lists the
  words in file order, the word on line \<open>i\<close> (counted from 0) with the id \<open>i\<close>; the ids
  are therefore strictly increasing, and looking a word up gives its line index.
\<close>

theorem vocab_ids_follow_file_order:
  assumes "vocab = read_vocab content" and "distinct vocab"
  shows "jpath (tokenizer_json (vocab_dict vocab)) [''model'', ''vocab'']
           = Some (JObj (map (\<lambda>(word, idx). (word, JInt idx))
                          (zip vocab (map int [0..<length vocab]))))
         \<and> sorted_wrt (<) (map snd (vocab_dict vocab))
         \<and> (\<forall>i<length vocab. map_of (vocab_dict vocab) (vocab ! i) = Some (int i))"
proof -
  have vd: "vocab_dict vocab = zip vocab (map int [0..<length vocab])"
    using assms(2) by (rule vocab_dict_distinct)
  have ids: "map snd (vocab_dict vocab) = map int [0..<length vocab]"
    by (simp add: vd)
  have inc: "sorted_wrt (<) (map int [0..<length vocab])"
    by (simp add: sorted_wrt_map sorted_wrt_upt)
  have at: "\<forall>i<length vocab. map_of (vocab_dict vocab) (vocab ! i) = Some (int i)"
  proof (intro allI impI)
    fix i assume i: "i < length vocab"
    have "\<forall>k. i < k \<and> k < length vocab \<longrightarrow> vocab ! k \<noteq> vocab ! i"
      using assms(2) i by (auto simp: nth_eq_iff_index_eq)
    with i show "map_of (vocab_dict vocab) (vocab ! i) = Some (int i)"
      by (intro vocab_dict_last) auto
  qed
  show ?thesis
    using config_vocab [of "vocab_dict vocab"] vd ids inc at by simp
qed

theorem vocab_ids_follow_file_order_witness:
  "distinct (read_vocab (''[PAD]'' @ [LF] @ ''hello'' @ [CR, LF] @ '' world ''))
   \<and> jpath (tokenizer_json (vocab_dict (read_vocab (''[PAD]'' @ [LF] @ ''hello'' @ [CR, LF] @ '' world ''))))
        [''model'', ''vocab'']
       = Some (JObj [(''[PAD]'', JInt 0), (''hello'', JInt 1), (''world'', JInt 2)])"
proof -
  have rv: "read_vocab (''[PAD]'' @ [LF] @ ''hello'' @ [CR, LF] @ '' world '') = [''[PAD]'', ''hello'', ''world'']"
    by code_simp
  have d: "distinct (read_vocab (''[PAD]'' @ [LF] @ ''hello'' @ [CR, LF] @ '' world ''))"
    unfolding rv by simp
  have up: "[0..<3] = [0, 1, 2]" by code_simp
  from vocab_ids_follow_file_order [OF refl d, unfolded rv] d
  show ?thesis
    unfolding rv by (simp add: up)
qed

text \<open>
  Claim C1 as written, at the vocabulary \<open>a, b, a\<close>: the word of line 0 receives the id 2, and the ids of the
  mapping, in its order, are 2 and 1.
\<close>

theorem repeated_word_breaks_file_order:
  "read_vocab (''a'' @ [LF] @ ''b'' @ [LF] @ ''a'' @ [LF]) = [''a'', ''b'', ''a'']
   \<and> jpath (tokenizer_json (vocab_dict (read_vocab (''a'' @ [LF] @ ''b'' @ [LF] @ ''a'' @ [LF]))))
        [''model'', ''vocab'']
       = Some (JObj [(''a'', JInt 2), (''b'', JInt 1)])"
proof -
  have rv: "read_vocab (''a'' @ [LF] @ ''b'' @ [LF] @ ''a'' @ [LF]) = [''a'', ''b'', ''a'']"
    by code_simp
  have vd: "vocab_dict [''a'', ''b'', ''a''] = [(''a'', 2), (''b'', 1)]"
    by code_simp
  show ?thesis
    unfolding rv vd config_vocab by simp
qed

text \<open>
  Claim C9. When a word stands on two lines \<open>i < j\<close> of the vocabulary (after
  stripping), \<open>model.vocab\<close> has exactly one entry for it, its id is the index \<open>l\<close> of the
  last line that holds the word, and the mapping has fewer entries than the file has lines.
\<close>

theorem duplicate_word_keeps_last_index:
  assumes "vocab = read_vocab content"
    and "i < j" and "j < length vocab" and "vocab ! i = w" and "vocab ! j = w"
  shows "\<exists>kvs l. jpath (tokenizer_json (vocab_dict vocab)) [''model'', ''vocab''] = Some (JObj kvs)
           \<and> length (filter (\<lambda>kv. fst kv = w) kvs) = 1
           \<and> l < length vocab \<and> vocab ! l = w
           \<and> (\<forall>k. l < k \<and> k < length vocab \<longrightarrow> vocab ! k \<noteq> w)
           \<and> map_of kvs w = Some (JInt (int l))
           \<and> length kvs < length vocab"
proof -
  define kvs where "kvs = map (\<lambda>(word, idx). (word, JInt idx)) (vocab_dict vocab)"
  have cfg: "jpath (tokenizer_json (vocab_dict vocab)) [''model'', ''vocab''] = Some (JObj kvs)"
    unfolding kvs_def by (rule config_vocab)
  have mem: "w \<in> set vocab"
    using assms(3,5) nth_mem by blast
  have keys: "map fst kvs = map fst (vocab_dict vocab)"
    unfolding kvs_def by (rule keys_vocab_entries)
  have one: "length (filter (\<lambda>kv. fst kv = w) kvs) = 1"
    using keys keys_vocab_dict [of vocab] mem by (intro one_entry) auto
  obtain l where l: "l < length vocab" "vocab ! l = w"
      "\<forall>k. l < k \<and> k < length vocab \<longrightarrow> vocab ! k \<noteq> w"
    using last_occurrence [OF mem] by blast
  have "map_of (vocab_dict vocab) w = Some (int l)"
    using l by (intro vocab_dict_last) auto
  then have val: "map_of kvs w = Some (JInt (int l))"
    unfolding kvs_def by (simp add: map_of_vocab_entries)
  have "i < length vocab" "i \<noteq> j" "vocab ! i = vocab ! j"
    using assms(2-5) by simp_all
  then have "\<not> distinct vocab"
    using assms(3) nth_eq_iff_index_eq by blast
  then have "card (set vocab) < length vocab"
    using card_distinct [of vocab] card_length [of vocab] by linarith
  then have fewer: "length kvs < length vocab"
    unfolding kvs_def by (simp add: length_vocab_dict)
  from cfg one l val fewer show ?thesis by blast
qed

theorem duplicate_word_keeps_last_index_witness:
  "(0::nat) < 2 \<and> 2 < length (read_vocab (''a'' @ [LF] @ ''b'' @ [LF] @ ''a'' @ [LF]))
   \<and> read_vocab (''a'' @ [LF] @ ''b'' @ [LF] @ ''a'' @ [LF]) ! 0 = ''a''
   \<and> read_vocab (''a'' @ [LF] @ ''b'' @ [LF] @ ''a'' @ [LF]) ! 2 = ''a''
   \<and> (\<exists>kvs l. jpath (tokenizer_json (vocab_dict (read_vocab (''a'' @ [LF] @ ''b'' @ [LF] @ ''a'' @ [LF]))))
                 [''model'', ''vocab''] = Some (JObj kvs)
         \<and> length (filter (\<lambda>kv. fst kv = ''a'') kvs) = 1
         \<and> map_of kvs ''a'' = Some (JInt (int l))
         \<and> length kvs < 3)"
proof -
  have rv: "read_vocab (''a'' @ [LF] @ ''b'' @ [LF] @ ''a'' @ [LF]) = [''a'', ''b'', ''a'']"
    by code_simp
  have h1: "(0::nat) < 2" by simp
  have h2: "2 < length (read_vocab (''a'' @ [LF] @ ''b'' @ [LF] @ ''a'' @ [LF]))"
    unfolding rv by simp
  have h3: "read_vocab (''a'' @ [LF] @ ''b'' @ [LF] @ ''a'' @ [LF]) ! 0 = ''a''"
    unfolding rv by simp
  have h4: "read_vocab (''a'' @ [LF] @ ''b'' @ [LF] @ ''a'' @ [LF]) ! 2 = ''a''"
    unfolding rv by simp
  have len: "length (read_vocab (''a'' @ [LF] @ ''b'' @ [LF] @ ''a'' @ [LF])) = 3"
    unfolding rv by simp
  from duplicate_word_keeps_last_index [OF refl h1 h2 h3 h4]
  obtain kvs l where
    "jpath (tokenizer_json (vocab_dict (read_vocab (''a'' @ [LF] @ ''b'' @ [LF] @ ''a'' @ [LF]))))
       [''model'', ''vocab''] = Some (JObj kvs)"
    "length (filter (\<lambda>kv. fst kv = ''a'') kvs) = 1"
    "map_of kvs ''a'' = Some (JInt (int l))"
    "length kvs < length (read_vocab (''a'' @ [LF] @ ''b'' @ [LF] @ ''a'' @ [LF]))"
    by blast
  with h1 h2 h3 h4 len show ?thesis by auto
qed

text \<open>
  Claim C2. Whatever the vocabulary file contains, the \<open>added_tokens\<close> list of the
  generated configuration declares \<open>[PAD]\<close>, \<open>[UNK]\<close>, \<open>[CLS]\<close>, \<open>[SEP]\<close> and
  \<open>[MASK]\<close> with the ids 0, 100, 101, 102 and 103, in this order, and the post-processor
  gives \<open>[CLS]\<close> and \<open>[SEP]\<close> the ids 101 and 102. (The ids that \<open>model.vocab\<close> gives to
  words of the file are a separate field: see C1 and C9.)
\<close>

theorem special_tokens_have_fixed_ids:
  "\<exists>entries post.
      jget (tokenizer_json (vocab_dict (read_vocab content))) ''added_tokens'' = Some (JArr entries)
    \<and> map (\<lambda>e. (jget e ''content'', jget e ''id'')) entries
        = [(Some (JStr ''[PAD]''), Some (JInt 0)),
           (Some (JStr ''[UNK]''), Some (JInt 100)),
           (Some (JStr ''[CLS]''), Some (JInt 101)),
           (Some (JStr ''[SEP]''), Some (JInt 102)),
           (Some (JStr ''[MASK]''), Some (JInt 103))]
    \<and> jpath (tokenizer_json (vocab_dict (read_vocab content)))
          [''post_processor'', ''special_tokens'', ''[CLS]'', ''ids''] = Some (JArr [JInt 101])
    \<and> jpath (tokenizer_json (vocab_dict (read_vocab content)))
          [''post_processor'', ''special_tokens'', ''[SEP]'', ''ids''] = Some (JArr [JInt 102])"
  by (simp add: tokenizer_json_def added_token_def)

text \<open>
  Claim C6. Two runs on any two vocabulary files produce configurations with the same
  keys, equal in every top-level field other than \<open>model\<close>, and whose \<open>model\<close> objects
  have the same keys and are equal in every field other than \<open>vocab\<close>.
\<close>

theorem template_fields_do_not_depend_on_vocabulary:
  assumes "cfg1 = tokenizer_json (vocab_dict (read_vocab content1))"
    and "cfg2 = tokenizer_json (vocab_dict (read_vocab content2))"
  shows "jkeys cfg1 = [''version'', ''truncation'', ''padding'', ''added_tokens'', ''normalizer'',
                        ''pre_tokenizer'', ''post_processor'', ''decoder'', ''model'']
         \<and> jkeys cfg2 = jkeys cfg1
         \<and> (\<forall>k. k \<noteq> ''model'' \<longrightarrow> jget cfg1 k = jget cfg2 k)
         \<and> (\<exists>m1 m2. jget cfg1 ''model'' = Some m1 \<and> jget cfg2 ''model'' = Some m2
              \<and> jkeys m1 = [''type'', ''unk_token'', ''continuing_subword_prefix'',
                             ''max_input_chars_per_word'', ''vocab'']
              \<and> jkeys m2 = jkeys m1
              \<and> (\<forall>k. k \<noteq> ''vocab'' \<longrightarrow> jget m1 k = jget m2 k))"
  unfolding assms by (simp add: tokenizer_json_def)

theorem template_fields_do_not_depend_on_vocabulary_witness:
  "jget (tokenizer_json (vocab_dict (read_vocab (''a'' @ [LF])))) ''decoder''
     = jget (tokenizer_json (vocab_dict (read_vocab (''b'' @ [LF] @ ''c'' @ [LF])))) ''decoder''
   \<and> ''decoder'' \<noteq> ''model''"
  using template_fields_do_not_depend_on_vocabulary [OF refl refl, of "''a'' @ [LF]" "''b'' @ [LF] @ ''c'' @ [LF]"]
  by simp

subsection \<open>Failure of the builder\<close>




section \<open>Properties of the streaming demo\<close>

subsection \<open>The shape of the simulated stream\<close>

text \<open>
  For a key of the table the generator yields one item per token of the scenario, then
  the final chunk, then the sentinel. The loop reads the clock once per token, so the
  \<open>i\<close>-th token event carries the reading \<open>n + i\<close>.
\<close>

lemma length_token_events: "length (token_events clk n cid ts) = length ts"
  by (induction ts arbitrary: n) auto

lemma nth_token_events:
  "i < length ts \<Longrightarrow>
     token_events clk n cid ts ! i
       = (generate_sse_event (clk (n + i)) cid (Some (ts ! i)) None, Some (ts ! i))"
proof (induction ts arbitrary: n i)
  case Nil
  then show ?case by simp
next
  case (Cons t ts)
  show ?case
  proof (cases i)
    case 0
    then show ?thesis by simp
  next
    case (Suc j)
    with Cons.prems have "j < length ts" by simp
    from Cons.IH [OF this, of "Suc n"] Suc show ?thesis by simp
  qed
qed

lemma tokens_of_token_events: "List.map_filter snd (token_events clk n cid ts) = ts"
  by (induction ts arbitrary: n) (auto simp: List.map_filter_simps)

lemma simulate_known:
  "map_of SIMULATED_RESPONSES key = Some sc \<Longrightarrow>
     simulate_sse_stream clk key show_raw
       = Inr (token_events clk 1 (''chatcmpl-demo-'' @ str_int (clk 0)) (tokens sc)
              @ [(generate_sse_event (clk (Suc (length (tokens sc))))
                    (''chatcmpl-demo-'' @ str_int (clk 0)) None (Some (finish_reason sc)), None),
                 (''data: [DONE]'' @ [LF, LF], None)])"
  by (simp add: simulate_sse_stream_def Let_def)

lemma table_tokens_nonempty:
  "map_of SIMULATED_RESPONSES key = Some sc \<Longrightarrow> [] \<notin> set (tokens sc)"
  by (auto simp: SIMULATED_RESPONSES_def split: if_splits)

lemma redacted_nonempty: "\<not> py_in ''[REDACTED]'' []"
  by simp

lemma parsed_step_count:
  "redaction_count (parsed_step st item)
     = redaction_count st
       + (case snd item of None \<Rightarrow> 0 | Some t \<Rightarrow> if py_in ''[REDACTED]'' t then 1 else 0)"
  by (cases "snd item") (auto simp: parsed_step_def Let_def)

lemma parsed_loop_count:
  "redaction_count (parsed_loop st items)
     = redaction_count st
       + int (length (filter (py_in ''[REDACTED]'') (List.map_filter snd items)))"
proof (induction items arbitrary: st)
  case Nil
  show ?case by (simp add: List.map_filter_simps)
next
  case (Cons item items)
  show ?case
    by (cases "snd item") (simp_all add: Cons.IH parsed_step_count List.map_filter_simps)
qed

lemma map_filter_append: "List.map_filter f (xs @ ys) = List.map_filter f xs @ List.map_filter f ys"
  by (simp add: List.map_filter_def)

lemma emitted_tokens:
  "map_of SIMULATED_RESPONSES key = Some sc \<Longrightarrow> simulate_sse_stream clk key show_raw = Inr items
     \<Longrightarrow> List.map_filter snd items = tokens sc"
  by (auto simp: simulate_known map_filter_append tokens_of_token_events List.map_filter_simps)

lemma simulated_stream_length:
  "map_of SIMULATED_RESPONSES key = Some sc \<Longrightarrow> simulate_sse_stream clk key show_raw = Inr items
     \<Longrightarrow> length items = length (tokens sc) + 2"
  by (auto simp: simulate_known length_token_events)

lemma lookup_pii:
  "map_of SIMULATED_RESPONSES ''pii_redacted''
     = Some \<lparr>prompt = ''What is my account email?'',
             tokens = [''Your'', '' account'', '' email'', '' is'', '' [REDACTED]'', '' and'',
                       '' phone'', '' is'', '' [REDACTED]'', ''.''],
             finish_reason = ''stop''\<rparr>"
  by (simp add: SIMULATED_RESPONSES_def)

lemma lookup_normal:
  "map_of SIMULATED_RESPONSES ''normal''
     = Some \<lparr>prompt = ''What is 2 + 2? Reply in one sentence.'',
             tokens = [''Two'', '' plus'', '' two'', '' equals'', '' four'', ''.''],
             finish_reason = ''stop''\<rparr>"
  by (simp add: SIMULATED_RESPONSES_def)

lemma lookup_blocked:
  "map_of SIMULATED_RESPONSES ''blocked''
     = Some \<lparr>prompt = ''Tell me how to hack into a system'',
             tokens = [''I'', '' cannot'', '' assist'', '' with'', '' that'', '' request'', '' due'',
                       '' to'', '' safety'', '' policies'', ''.''],
             finish_reason = ''content_filter''\<rparr>"
  by (simp add: SIMULATED_RESPONSES_def)

subsection \<open>The text of an event\<close>

text \<open>
  \<open>json.dumps\<close> writes a string between double quotes; a character from the space to
  the tilde other than the quote and the backslash is written as it is, and a newline as
  the two characters \<open>\n\<close>. The decimal digits of an integer, the keys and the constant
  values of a chunk, the finish reasons of the table and, newlines apart, the tokens of the
  table consist of such characters only.
\<close>

lemma escape_char_plain:
  "32 \<le> (of_char c :: nat) \<Longrightarrow> (of_char c :: nat) \<le> 126 \<Longrightarrow> c \<noteq> CHR 0x22 \<Longrightarrow> c \<noteq> CHR 0x5C
     \<Longrightarrow> escape_char c = [c]"
  by (auto simp: escape_char_def LF_def CR_def)

lemma escape_char_LF: "escape_char LF = [CHR 0x5C, CHR ''n'']"
  by (simp add: escape_char_def LF_def)

lemma json_string_plain:
  assumes "\<forall>c\<in>set s. 32 \<le> (of_char c :: nat) \<and> (of_char c :: nat) \<le> 126 \<and> c \<noteq> CHR 0x22 \<and> c \<noteq> CHR 0x5C"
  shows "json_string s = CHR 0x22 # s @ [CHR 0x22]"
proof -
  from assms have "concat (map escape_char s) = s"
    by (induction s) (simp_all add: escape_char_plain)
  then show ?thesis by (simp add: json_string_def)
qed

lemma json_string_newlines:
  assumes "\<forall>c\<in>set s. c = LF \<or> (32 \<le> (of_char c :: nat) \<and> (of_char c :: nat) \<le> 126
                           \<and> c \<noteq> CHR 0x22 \<and> c \<noteq> CHR 0x5C)"
  shows "json_string s
           = CHR 0x22 # concat (map (\<lambda>c. if c = LF then [CHR 0x5C, CHR ''n''] else [c]) s) @ [CHR 0x22]"
proof -
  from assms have "concat (map escape_char s)
               = concat (map (\<lambda>c. if c = LF then [CHR 0x5C, CHR ''n''] else [c]) s)"
    by (induction s) (auto simp: escape_char_plain escape_char_LF)
  then show ?thesis by (simp add: json_string_def)
qed

lemma digit_char_plain:
  assumes "d < 10"
  shows "32 \<le> (of_char (digit_char d) :: nat) \<and> (of_char (digit_char d) :: nat) \<le> 126
         \<and> digit_char d \<noteq> CHR 0x22 \<and> digit_char d \<noteq> CHR 0x5C"
proof -
  from assms have v: "(of_char (digit_char d) :: nat) = 48 + d"
    by (simp add: digit_char_def)
  have "digit_char d \<noteq> CHR 0x22"
  proof
    assume "digit_char d = CHR 0x22"
    then have "(of_char (digit_char d) :: nat) = of_char (CHR 0x22)" by simp
    with v show False by simp
  qed
  moreover have "digit_char d \<noteq> CHR 0x5C"
  proof
    assume "digit_char d = CHR 0x5C"
    then have "(of_char (digit_char d) :: nat) = of_char (CHR 0x5C)" by simp
    with v assms show False by simp
  qed
  ultimately show ?thesis using v assms by simp
qed

lemma str_nat_plain:
  "\<forall>c\<in>set (str_nat n). 32 \<le> (of_char c :: nat) \<and> (of_char c :: nat) \<le> 126 \<and> c \<noteq> CHR 0x22 \<and> c \<noteq> CHR 0x5C"
proof (induction n rule: str_nat.induct)
  case (1 n)
  show ?case
  proof (cases "n < 10")
    case True
    then show ?thesis
      using digit_char_plain [of n] by (subst str_nat.simps) simp
  next
    case False
    have "n mod 10 < 10" by simp
    with False "1.IH" show ?thesis
      using digit_char_plain [of "n mod 10"] by (subst str_nat.simps) auto
  qed
qed

lemma str_int_plain:
  "\<forall>c\<in>set (str_int i). 32 \<le> (of_char c :: nat) \<and> (of_char c :: nat) \<le> 126 \<and> c \<noteq> CHR 0x22 \<and> c \<noteq> CHR 0x5C"
  using str_nat_plain by (auto simp: str_int_def)

lemma json_string_chunk_id:
  "json_string (''chatcmpl-demo-'' @ str_int i) = CHR 0x22 # ''chatcmpl-demo-'' @ str_int i @ [CHR 0x22]"
  using str_int_plain [of i] by (subst json_string_plain) auto

lemma table_chars_checked:
  "list_all (\<lambda>kv. list_all (list_all (\<lambda>c. c = LF \<or> (32 \<le> (of_char c :: nat) \<and> (of_char c :: nat) \<le> 126
                                             \<and> c \<noteq> CHR 0x22 \<and> c \<noteq> CHR 0x5C)))
                            (tokens (snd kv)))
     SIMULATED_RESPONSES"
  by code_simp

lemma table_token_chars:
  assumes "map_of SIMULATED_RESPONSES key = Some sc" and "t \<in> set (tokens sc)" and "c \<in> set t"
  shows "c = LF \<or> (32 \<le> (of_char c :: nat) \<and> (of_char c :: nat) \<le> 126 \<and> c \<noteq> CHR 0x22 \<and> c \<noteq> CHR 0x5C)"
proof -
  from assms(1) have "(key, sc) \<in> set SIMULATED_RESPONSES" by (rule map_of_SomeD)
  with table_chars_checked
  have "list_all (list_all (\<lambda>c. c = LF \<or> (32 \<le> (of_char c :: nat) \<and> (of_char c :: nat) \<le> 126
                                   \<and> c \<noteq> CHR 0x22 \<and> c \<noteq> CHR 0x5C))) (tokens sc)"
    unfolding list_all_iff by fastforce
  with assms(2,3) show ?thesis unfolding list_all_iff by blast
qed

lemma json_string_token:
  assumes "map_of SIMULATED_RESPONSES key = Some sc" and "i < length (tokens sc)"
  shows "json_string (tokens sc ! i)
           = CHR 0x22 # concat (map (\<lambda>c. if c = LF then [CHR 0x5C, CHR ''n''] else [c]) (tokens sc ! i))
               @ [CHR 0x22]"
proof (rule json_string_newlines, rule ballI)
  fix c
  assume "c \<in> set (tokens sc ! i)"
  with assms show "c = LF \<or> (32 \<le> (of_char c :: nat) \<and> (of_char c :: nat) \<le> 126
                               \<and> c \<noteq> CHR 0x22 \<and> c \<noteq> CHR 0x5C)"
    using table_token_chars [of key sc "tokens sc ! i" c] by simp
qed

lemma table_finish_reason:
  "map_of SIMULATED_RESPONSES key = Some sc
     \<Longrightarrow> finish_reason sc = ''stop'' \<or> finish_reason sc = ''content_filter''"
  by (auto simp: SIMULATED_RESPONSES_def split: if_splits)

lemma json_string_finish_reason:
  assumes "map_of SIMULATED_RESPONSES key = Some sc"
  shows "json_string (finish_reason sc) = CHR 0x22 # finish_reason sc @ [CHR 0x22]"
proof -
  from table_finish_reason [OF assms] show ?thesis
  proof
    assume "finish_reason sc = ''stop''"
    moreover have "json_string ''stop'' = CHR 0x22 # ''stop'' @ [CHR 0x22]" by code_simp
    ultimately show ?thesis by simp
  next
    assume "finish_reason sc = ''content_filter''"
    moreover have "json_string ''content_filter'' = CHR 0x22 # ''content_filter'' @ [CHR 0x22]"
      by code_simp
    ultimately show ?thesis by simp
  qed
qed

lemma json_string_keys:
  "json_string ''id'' = CHR 0x22 # ''id'' @ [CHR 0x22]"
  "json_string ''object'' = CHR 0x22 # ''object'' @ [CHR 0x22]"
  "json_string ''chat.completion.chunk'' = CHR 0x22 # ''chat.completion.chunk'' @ [CHR 0x22]"
  "json_string ''created'' = CHR 0x22 # ''created'' @ [CHR 0x22]"
  "json_string ''model'' = CHR 0x22 # ''model'' @ [CHR 0x22]"
  "json_string ''gpt-4'' = CHR 0x22 # ''gpt-4'' @ [CHR 0x22]"
  "json_string ''choices'' = CHR 0x22 # ''choices'' @ [CHR 0x22]"
  "json_string ''index'' = CHR 0x22 # ''index'' @ [CHR 0x22]"
  "json_string ''delta'' = CHR 0x22 # ''delta'' @ [CHR 0x22]"
  "json_string ''finish_reason'' = CHR 0x22 # ''finish_reason'' @ [CHR 0x22]"
  "json_string ''content'' = CHR 0x22 # ''content'' @ [CHR 0x22]"
  by code_simp+

lemma str_int_0: "str_int 0 = ''0''"
  by code_simp

text \<open>
  The text of an event with content and of the final event, given how the chunk id, the
  content and the finish reason are written as JSON strings.
\<close>

lemma token_event_text:
  assumes "t \<noteq> []" and "json_string cid = qcid" and "json_string t = qt"
  shows "generate_sse_event now cid (Some t) None
           = ''data: {'' @ CHR 0x22 # ''id'' @ CHR 0x22 # '': '' @ qcid @ '', '' @ CHR 0x22 #
             ''object'' @ CHR 0x22 # '': '' @ CHR 0x22 # ''chat.completion.chunk'' @ CHR 0x22 #
             '', '' @ CHR 0x22 # ''created'' @ CHR 0x22 # '': '' @ str_int now @ '', '' @
             CHR 0x22 # ''model'' @ CHR 0x22 # '': '' @ CHR 0x22 # ''gpt-4'' @ CHR 0x22 #
             '', '' @ CHR 0x22 # ''choices'' @ CHR 0x22 # '': [{'' @ CHR 0x22 # ''index'' @
             CHR 0x22 # '': 0, '' @ CHR 0x22 # ''delta'' @ CHR 0x22 # '': {'' @ CHR 0x22 #
             ''content'' @ CHR 0x22 # '': '' @ qt @ ''}, '' @ CHR 0x22 # ''finish_reason'' @
             CHR 0x22 # '': null}]}'' @ [LF, LF]"
  using assms
  by (simp add: generate_sse_event_def json_dumps_def chunk_data_def json_string_keys str_int_0)

lemma final_event_text:
  assumes "json_string cid = qcid" and "json_string fr = qfr"
  shows "generate_sse_event now cid None (Some fr)
           = ''data: {'' @ CHR 0x22 # ''id'' @ CHR 0x22 # '': '' @ qcid @ '', '' @ CHR 0x22 #
             ''object'' @ CHR 0x22 # '': '' @ CHR 0x22 # ''chat.completion.chunk'' @ CHR 0x22 #
             '', '' @ CHR 0x22 # ''created'' @ CHR 0x22 # '': '' @ str_int now @ '', '' @
             CHR 0x22 # ''model'' @ CHR 0x22 # '': '' @ CHR 0x22 # ''gpt-4'' @ CHR 0x22 #
             '', '' @ CHR 0x22 # ''choices'' @ CHR 0x22 # '': [{'' @ CHR 0x22 # ''index'' @
             CHR 0x22 # '': 0, '' @ CHR 0x22 # ''delta'' @ CHR 0x22 # '': {}, '' @ CHR 0x22 #
             ''finish_reason'' @ CHR 0x22 # '': '' @ qfr @ ''}]}'' @ [LF, LF]"
  using assms
  by (simp add: generate_sse_event_def json_dumps_def chunk_data_def json_string_keys str_int_0)

lemma lookup_financial:
  "map_of SIMULATED_RESPONSES ''financial''
     = Some \<lparr>prompt = ''Should I invest all my savings in Bitcoin?'',
             tokens = [
               ''I'', '' cannot'', '' provide'', '' specific'', '' investment'', '' advice'', ''.'',
               '' Please'', '' consult'', '' a'', '' licensed'', '' financial'', '' advisor'', ''.'',
               [LF, LF], ''*'', ''Capital'', '' at'', '' risk'', ''.'', '' Past'', '' performance'',
               '' does'', '' not'', '' guarantee'', '' future'', '' results'', ''.*''],
             finish_reason = ''stop''\<rparr>"
  by (simp add: SIMULATED_RESPONSES_def)

subsection \<open>Claims about the simulated stream\<close>

text \<open>
  Claim C4. For every key of the table of simulated responses the stream is a finite
  sequence, two items longer than the scenario's token list, and its last item is the
  sentinel \<open>data: [DONE]\<close> followed by two newlines.
\<close>

theorem simulated_stream_ends_with_sentinel:
  assumes "map_of SIMULATED_RESPONSES key = Some sc"
  shows "\<exists>items. simulate_sse_stream clk key show_raw = Inr items
           \<and> length items = length (tokens sc) + 2
           \<and> last items = (''data: [DONE]'' @ [LF, LF], None)"
  using assms by (simp add: simulate_known length_token_events)

theorem simulated_stream_ends_with_sentinel_witness:
  "map_of SIMULATED_RESPONSES ''blocked'' \<noteq> None
   \<and> (\<exists>items. simulate_sse_stream int ''blocked'' True = Inr items
         \<and> length items = 13
         \<and> last items = (''data: [DONE]'' @ [LF, LF], None))"
proof -
  from simulated_stream_ends_with_sentinel [OF lookup_blocked, of int True]
  obtain items where
    "simulate_sse_stream int ''blocked'' True = Inr items"
    "length items = 13"
    "last items = (''data: [DONE]'' @ [LF, LF], None)"
    by auto
  with lookup_blocked show ?thesis by simp
qed

text \<open>
  Claim C7. For every key of the table the stream has exactly one event per token of the
  scenario, in the order of the token list. The \<open>i\<close>-th item is paired with the
  \<open>i\<close>-th token and its text is, with \<open>ID\<close> the first reading of the clock, \<open>T\<close>
  the reading \<open>i + 1\<close> and \<open>TOKEN\<close> the token with every newline written \<open>\n\<close>,

  \<open>data: {"id": "chatcmpl-demo-ID", "object": "chat.completion.chunk", "created": T,
  "model": "gpt-4", "choices": [{"index": 0, "delta": {"content": "TOKEN"},
  "finish_reason": null}]}\<close>

  followed by two newlines. The item after the tokens carries no token, and the stream
  ends with the sentinel.
\<close>

theorem one_event_per_token_in_order:
  assumes "map_of SIMULATED_RESPONSES key = Some sc"
  shows "\<exists>items. simulate_sse_stream clk key show_raw = Inr items
           \<and> length items = length (tokens sc) + 2
           \<and> (\<forall>i<length (tokens sc).
                 items ! i
                   = (''data: {'' @ CHR 0x22 # ''id'' @ CHR 0x22 # '': '' @ CHR 0x22 #
                      ''chatcmpl-demo-'' @ str_int (clk 0) @ CHR 0x22 # '', '' @ CHR 0x22 #
                      ''object'' @ CHR 0x22 # '': '' @ CHR 0x22 # ''chat.completion.chunk'' @
                      CHR 0x22 # '', '' @ CHR 0x22 # ''created'' @ CHR 0x22 # '': '' @
                      str_int (clk (Suc i)) @ '', '' @ CHR 0x22 # ''model'' @ CHR 0x22 #
                      '': '' @ CHR 0x22 # ''gpt-4'' @ CHR 0x22 # '', '' @ CHR 0x22 #
                      ''choices'' @ CHR 0x22 # '': [{'' @ CHR 0x22 # ''index'' @ CHR 0x22 #
                      '': 0, '' @ CHR 0x22 # ''delta'' @ CHR 0x22 # '': {'' @ CHR 0x22 #
                      ''content'' @ CHR 0x22 # '': '' @ CHR 0x22 #
                      concat (map (\<lambda>c. if c = LF then [CHR 0x5C, CHR ''n''] else [c]) (tokens sc ! i)) @
                      CHR 0x22 # ''}, '' @ CHR 0x22 # ''finish_reason'' @ CHR 0x22 #
                      '': null}]}'' @ [LF, LF],
                      Some (tokens sc ! i)))
           \<and> snd (items ! length (tokens sc)) = None
           \<and> last items = (''data: [DONE]'' @ [LF, LF], None)"
proof -
  define cid where "cid = ''chatcmpl-demo-'' @ str_int (clk 0)"
  have qcid: "json_string cid = CHR 0x22 # ''chatcmpl-demo-'' @ str_int (clk 0) @ [CHR 0x22]"
    unfolding cid_def by (rule json_string_chunk_id)
  have ev: "generate_sse_event (clk (Suc i)) cid (Some (tokens sc ! i)) None
              = ''data: {'' @ CHR 0x22 # ''id'' @ CHR 0x22 # '': '' @ CHR 0x22 #
                ''chatcmpl-demo-'' @ str_int (clk 0) @ CHR 0x22 # '', '' @ CHR 0x22 #
                ''object'' @ CHR 0x22 # '': '' @ CHR 0x22 # ''chat.completion.chunk'' @
                CHR 0x22 # '', '' @ CHR 0x22 # ''created'' @ CHR 0x22 # '': '' @
                str_int (clk (Suc i)) @ '', '' @ CHR 0x22 # ''model'' @ CHR 0x22 # '': '' @
                CHR 0x22 # ''gpt-4'' @ CHR 0x22 # '', '' @ CHR 0x22 # ''choices'' @ CHR 0x22 #
                '': [{'' @ CHR 0x22 # ''index'' @ CHR 0x22 # '': 0, '' @ CHR 0x22 # ''delta'' @
                CHR 0x22 # '': {'' @ CHR 0x22 # ''content'' @ CHR 0x22 # '': '' @ CHR 0x22 #
                concat (map (\<lambda>c. if c = LF then [CHR 0x5C, CHR ''n''] else [c]) (tokens sc ! i)) @
                CHR 0x22 # ''}, '' @ CHR 0x22 # ''finish_reason'' @ CHR 0x22 # '': null}]}'' @
                [LF, LF]"
    if "i < length (tokens sc)" for i
  proof -
    from that have "tokens sc ! i \<noteq> []"
      using table_tokens_nonempty [OF assms] by (metis nth_mem)
    from token_event_text [OF this qcid json_string_token [OF assms that]]
    show ?thesis by simp
  qed
  have sim: "simulate_sse_stream clk key show_raw
               = Inr (token_events clk 1 cid (tokens sc)
                      @ [(generate_sse_event (clk (Suc (length (tokens sc)))) cid None
                            (Some (finish_reason sc)), None),
                         (''data: [DONE]'' @ [LF, LF], None)])"
    unfolding cid_def by (rule simulate_known [OF assms])
  show ?thesis
    unfolding sim
    by (simp add: length_token_events nth_append nth_token_events ev)
qed

theorem one_event_per_token_in_order_witness:
  "map_of SIMULATED_RESPONSES ''normal'' \<noteq> None
   \<and> (\<exists>items. simulate_sse_stream int ''normal'' False = Inr items
         \<and> length items = 8
         \<and> items ! 0
             = (''data: {'' @ CHR 0x22 # ''id'' @ CHR 0x22 # '': '' @ CHR 0x22 #
                ''chatcmpl-demo-'' @ ''0'' @ CHR 0x22 # '', '' @ CHR 0x22 # ''object'' @
                CHR 0x22 # '': '' @ CHR 0x22 # ''chat.completion.chunk'' @ CHR 0x22 # '', '' @
                CHR 0x22 # ''created'' @ CHR 0x22 # '': '' @ ''1'' @ '', '' @ CHR 0x22 #
                ''model'' @ CHR 0x22 # '': '' @ CHR 0x22 # ''gpt-4'' @ CHR 0x22 # '', '' @
                CHR 0x22 # ''choices'' @ CHR 0x22 # '': [{'' @ CHR 0x22 # ''index'' @ CHR 0x22 #
                '': 0, '' @ CHR 0x22 # ''delta'' @ CHR 0x22 # '': {'' @ CHR 0x22 # ''content'' @
                CHR 0x22 # '': '' @ CHR 0x22 # ''Two'' @ CHR 0x22 # ''}, '' @ CHR 0x22 #
                ''finish_reason'' @ CHR 0x22 # '': null}]}'' @ [LF, LF],
                Some ''Two'')
         \<and> last items = (''data: [DONE]'' @ [LF, LF], None))
   \<and> map_of SIMULATED_RESPONSES ''financial'' \<noteq> None
   \<and> (\<exists>items. simulate_sse_stream int ''financial'' False = Inr items
         \<and> length items = 30
         \<and> items ! 14
             = (''data: {'' @ CHR 0x22 # ''id'' @ CHR 0x22 # '': '' @ CHR 0x22 #
                ''chatcmpl-demo-'' @ ''0'' @ CHR 0x22 # '', '' @ CHR 0x22 # ''object'' @
                CHR 0x22 # '': '' @ CHR 0x22 # ''chat.completion.chunk'' @ CHR 0x22 # '', '' @
                CHR 0x22 # ''created'' @ CHR 0x22 # '': '' @ ''15'' @ '', '' @ CHR 0x22 #
                ''model'' @ CHR 0x22 # '': '' @ CHR 0x22 # ''gpt-4'' @ CHR 0x22 # '', '' @
                CHR 0x22 # ''choices'' @ CHR 0x22 # '': [{'' @ CHR 0x22 # ''index'' @ CHR 0x22 #
                '': 0, '' @ CHR 0x22 # ''delta'' @ CHR 0x22 # '': {'' @ CHR 0x22 # ''content'' @
                CHR 0x22 # '': '' @ CHR 0x22 # [CHR 0x5C, CHR ''n'', CHR 0x5C, CHR ''n''] @
                CHR 0x22 # ''}, '' @ CHR 0x22 # ''finish_reason'' @ CHR 0x22 # '': null}]}'' @
                [LF, LF],
                Some [LF, LF]))"
proof -
  have digits: "str_int 0 = ''0''" "str_int 1 = ''1''" "str_int 15 = ''15''"
    by code_simp+
  from one_event_per_token_in_order [OF lookup_normal, of int False]
  obtain items where
    sim: "simulate_sse_stream int ''normal'' False = Inr items" and
    len: "length items = 8" and
    tok: "\<forall>i<6. items ! i
            = (''data: {'' @ CHR 0x22 # ''id'' @ CHR 0x22 # '': '' @ CHR 0x22 #
               ''chatcmpl-demo-'' @ str_int (int 0) @ CHR 0x22 # '', '' @ CHR 0x22 #
               ''object'' @ CHR 0x22 # '': '' @ CHR 0x22 # ''chat.completion.chunk'' @
               CHR 0x22 # '', '' @ CHR 0x22 # ''created'' @ CHR 0x22 # '': '' @
               str_int (int (Suc i)) @ '', '' @ CHR 0x22 # ''model'' @ CHR 0x22 # '': '' @
               CHR 0x22 # ''gpt-4'' @ CHR 0x22 # '', '' @ CHR 0x22 # ''choices'' @ CHR 0x22 #
               '': [{'' @ CHR 0x22 # ''index'' @ CHR 0x22 # '': 0, '' @ CHR 0x22 # ''delta'' @
               CHR 0x22 # '': {'' @ CHR 0x22 # ''content'' @ CHR 0x22 # '': '' @ CHR 0x22 #
               concat (map (\<lambda>c. if c = LF then [CHR 0x5C, CHR ''n''] else [c]) ([''Two'', '' plus'', '' two'', '' equals'', '' four'', ''.''] ! i)) @
               CHR 0x22 # ''}, '' @ CHR 0x22 # ''finish_reason'' @ CHR 0x22 # '': null}]}'' @
               [LF, LF],
               Some ([''Two'', '' plus'', '' two'', '' equals'', '' four'', ''.''] ! i))" and
    lst: "last items = (''data: [DONE]'' @ [LF, LF], None)"
    by auto
  from tok have "items ! 0
             = (''data: {'' @ CHR 0x22 # ''id'' @ CHR 0x22 # '': '' @ CHR 0x22 #
                ''chatcmpl-demo-'' @ ''0'' @ CHR 0x22 # '', '' @ CHR 0x22 # ''object'' @
                CHR 0x22 # '': '' @ CHR 0x22 # ''chat.completion.chunk'' @ CHR 0x22 # '', '' @
                CHR 0x22 # ''created'' @ CHR 0x22 # '': '' @ ''1'' @ '', '' @ CHR 0x22 #
                ''model'' @ CHR 0x22 # '': '' @ CHR 0x22 # ''gpt-4'' @ CHR 0x22 # '', '' @
                CHR 0x22 # ''choices'' @ CHR 0x22 # '': [{'' @ CHR 0x22 # ''index'' @ CHR 0x22 #
                '': 0, '' @ CHR 0x22 # ''delta'' @ CHR 0x22 # '': {'' @ CHR 0x22 # ''content'' @
                CHR 0x22 # '': '' @ CHR 0x22 # ''Two'' @ CHR 0x22 # ''}, '' @ CHR 0x22 #
                ''finish_reason'' @ CHR 0x22 # '': null}]}'' @ [LF, LF],
                Some ''Two'')"
    by (simp add: digits LF_def)
  with sim len lst lookup_normal
  have normal: "map_of SIMULATED_RESPONSES ''normal'' \<noteq> None
   \<and> (\<exists>items. simulate_sse_stream int ''normal'' False = Inr items
         \<and> length items = 8
         \<and> items ! 0
             = (''data: {'' @ CHR 0x22 # ''id'' @ CHR 0x22 # '': '' @ CHR 0x22 #
                ''chatcmpl-demo-'' @ ''0'' @ CHR 0x22 # '', '' @ CHR 0x22 # ''object'' @
                CHR 0x22 # '': '' @ CHR 0x22 # ''chat.completion.chunk'' @ CHR 0x22 # '', '' @
                CHR 0x22 # ''created'' @ CHR 0x22 # '': '' @ ''1'' @ '', '' @ CHR 0x22 #
                ''model'' @ CHR 0x22 # '': '' @ CHR 0x22 # ''gpt-4'' @ CHR 0x22 # '', '' @
                CHR 0x22 # ''choices'' @ CHR 0x22 # '': [{'' @ CHR 0x22 # ''index'' @ CHR 0x22 #
                '': 0, '' @ CHR 0x22 # ''delta'' @ CHR 0x22 # '': {'' @ CHR 0x22 # ''content'' @
                CHR 0x22 # '': '' @ CHR 0x22 # ''Two'' @ CHR 0x22 # ''}, '' @ CHR 0x22 #
                ''finish_reason'' @ CHR 0x22 # '': null}]}'' @ [LF, LF],
                Some ''Two'')
         \<and> last items = (''data: [DONE]'' @ [LF, LF], None))"
    by simp
  from one_event_per_token_in_order [OF lookup_financial, of int False]
  obtain items' where
    sim': "simulate_sse_stream int ''financial'' False = Inr items'" and
    len': "length items' = 30" and
    tok': "\<forall>i<28. items' ! i
            = (''data: {'' @ CHR 0x22 # ''id'' @ CHR 0x22 # '': '' @ CHR 0x22 #
               ''chatcmpl-demo-'' @ str_int (int 0) @ CHR 0x22 # '', '' @ CHR 0x22 #
               ''object'' @ CHR 0x22 # '': '' @ CHR 0x22 # ''chat.completion.chunk'' @
               CHR 0x22 # '', '' @ CHR 0x22 # ''created'' @ CHR 0x22 # '': '' @
               str_int (int (Suc i)) @ '', '' @ CHR 0x22 # ''model'' @ CHR 0x22 # '': '' @
               CHR 0x22 # ''gpt-4'' @ CHR 0x22 # '', '' @ CHR 0x22 # ''choices'' @ CHR 0x22 #
               '': [{'' @ CHR 0x22 # ''index'' @ CHR 0x22 # '': 0, '' @ CHR 0x22 # ''delta'' @
               CHR 0x22 # '': {'' @ CHR 0x22 # ''content'' @ CHR 0x22 # '': '' @ CHR 0x22 #
               concat (map (\<lambda>c. if c = LF then [CHR 0x5C, CHR ''n''] else [c]) ([''I'', '' cannot'', '' provide'', '' specific'', '' investment'', '' advice'', ''.'',
                      '' Please'', '' consult'', '' a'', '' licensed'', '' financial'', '' advisor'', ''.'',
                      [LF, LF], ''*'', ''Capital'', '' at'', '' risk'', ''.'', '' Past'', '' performance'',
                      '' does'', '' not'', '' guarantee'', '' future'', '' results'', ''.*''] ! i)) @
               CHR 0x22 # ''}, '' @ CHR 0x22 # ''finish_reason'' @ CHR 0x22 # '': null}]}'' @
               [LF, LF],
               Some ([''I'', '' cannot'', '' provide'', '' specific'', '' investment'', '' advice'', ''.'',
                      '' Please'', '' consult'', '' a'', '' licensed'', '' financial'', '' advisor'', ''.'',
                      [LF, LF], ''*'', ''Capital'', '' at'', '' risk'', ''.'', '' Past'', '' performance'',
                      '' does'', '' not'', '' guarantee'', '' future'', '' results'', ''.*''] ! i))"
    by auto
  from tok' have "items' ! 14
             = (''data: {'' @ CHR 0x22 # ''id'' @ CHR 0x22 # '': '' @ CHR 0x22 #
                ''chatcmpl-demo-'' @ ''0'' @ CHR 0x22 # '', '' @ CHR 0x22 # ''object'' @
                CHR 0x22 # '': '' @ CHR 0x22 # ''chat.completion.chunk'' @ CHR 0x22 # '', '' @
                CHR 0x22 # ''created'' @ CHR 0x22 # '': '' @ ''15'' @ '', '' @ CHR 0x22 #
                ''model'' @ CHR 0x22 # '': '' @ CHR 0x22 # ''gpt-4'' @ CHR 0x22 # '', '' @
                CHR 0x22 # ''choices'' @ CHR 0x22 # '': [{'' @ CHR 0x22 # ''index'' @ CHR 0x22 #
                '': 0, '' @ CHR 0x22 # ''delta'' @ CHR 0x22 # '': {'' @ CHR 0x22 # ''content'' @
                CHR 0x22 # '': '' @ CHR 0x22 # [CHR 0x5C, CHR ''n'', CHR 0x5C, CHR ''n''] @
                CHR 0x22 # ''}, '' @ CHR 0x22 # ''finish_reason'' @ CHR 0x22 # '': null}]}'' @
                [LF, LF],
                Some [LF, LF])"
    by (simp add: digits LF_def)
  with sim' len' lookup_financial
  have financial: "map_of SIMULATED_RESPONSES ''financial'' \<noteq> None
   \<and> (\<exists>items. simulate_sse_stream int ''financial'' False = Inr items
         \<and> length items = 30
         \<and> items ! 14
             = (''data: {'' @ CHR 0x22 # ''id'' @ CHR 0x22 # '': '' @ CHR 0x22 #
                ''chatcmpl-demo-'' @ ''0'' @ CHR 0x22 # '', '' @ CHR 0x22 # ''object'' @
                CHR 0x22 # '': '' @ CHR 0x22 # ''chat.completion.chunk'' @ CHR 0x22 # '', '' @
                CHR 0x22 # ''created'' @ CHR 0x22 # '': '' @ ''15'' @ '', '' @ CHR 0x22 #
                ''model'' @ CHR 0x22 # '': '' @ CHR 0x22 # ''gpt-4'' @ CHR 0x22 # '', '' @
                CHR 0x22 # ''choices'' @ CHR 0x22 # '': [{'' @ CHR 0x22 # ''index'' @ CHR 0x22 #
                '': 0, '' @ CHR 0x22 # ''delta'' @ CHR 0x22 # '': {'' @ CHR 0x22 # ''content'' @
                CHR 0x22 # '': '' @ CHR 0x22 # [CHR 0x5C, CHR ''n'', CHR 0x5C, CHR ''n''] @
                CHR 0x22 # ''}, '' @ CHR 0x22 # ''finish_reason'' @ CHR 0x22 # '': null}]}'' @
                [LF, LF],
                Some [LF, LF]))"
    by simp
  from normal financial show ?thesis by simp
qed

text \<open>
  Claim C10. For every key of the table the second-to-last item of the stream carries no
  token and its text is, with \<open>ID\<close> the first reading of the clock, \<open>T\<close> the reading
  after those of the tokens and \<open>REASON\<close> the finish reason of the scenario,

  \<open>data: {"id": "chatcmpl-demo-ID", "object": "chat.completion.chunk", "created": T,
  "model": "gpt-4", "choices": [{"index": 0, "delta": {}, "finish_reason": "REASON"}]}\<close>

  followed by two newlines: its delta is empty and its finish reason is that of the
  scenario. Every item before it is a chunk whose delta holds a token and whose finish
  reason is \<open>null\<close>.
\<close>

theorem final_chunk_carries_finish_reason:
  assumes "map_of SIMULATED_RESPONSES key = Some sc"
  shows "\<exists>items. simulate_sse_stream clk key show_raw = Inr items
           \<and> 2 \<le> length items
           \<and> items ! (length items - 2)
               = (''data: {'' @ CHR 0x22 # ''id'' @ CHR 0x22 # '': '' @ CHR 0x22 #
                  ''chatcmpl-demo-'' @ str_int (clk 0) @ CHR 0x22 # '', '' @ CHR 0x22 #
                  ''object'' @ CHR 0x22 # '': '' @ CHR 0x22 # ''chat.completion.chunk'' @
                  CHR 0x22 # '', '' @ CHR 0x22 # ''created'' @ CHR 0x22 # '': '' @
                  str_int (clk (Suc (length (tokens sc)))) @ '', '' @ CHR 0x22 # ''model'' @
                  CHR 0x22 # '': '' @ CHR 0x22 # ''gpt-4'' @ CHR 0x22 # '', '' @ CHR 0x22 #
                  ''choices'' @ CHR 0x22 # '': [{'' @ CHR 0x22 # ''index'' @ CHR 0x22 #
                  '': 0, '' @ CHR 0x22 # ''delta'' @ CHR 0x22 # '': {}, '' @ CHR 0x22 #
                  ''finish_reason'' @ CHR 0x22 # '': '' @ CHR 0x22 # finish_reason sc @
                  CHR 0x22 # ''}]}'' @ [LF, LF],
                  None)
           \<and> (\<forall>i<length items - 2.
                 fst (items ! i)
                   = ''data: {'' @ CHR 0x22 # ''id'' @ CHR 0x22 # '': '' @ CHR 0x22 #
                     ''chatcmpl-demo-'' @ str_int (clk 0) @ CHR 0x22 # '', '' @ CHR 0x22 #
                     ''object'' @ CHR 0x22 # '': '' @ CHR 0x22 # ''chat.completion.chunk'' @
                     CHR 0x22 # '', '' @ CHR 0x22 # ''created'' @ CHR 0x22 # '': '' @
                     str_int (clk (Suc i)) @ '', '' @ CHR 0x22 # ''model'' @ CHR 0x22 # '': '' @
                     CHR 0x22 # ''gpt-4'' @ CHR 0x22 # '', '' @ CHR 0x22 # ''choices'' @
                     CHR 0x22 # '': [{'' @ CHR 0x22 # ''index'' @ CHR 0x22 # '': 0, '' @
                     CHR 0x22 # ''delta'' @ CHR 0x22 # '': {'' @ CHR 0x22 # ''content'' @
                     CHR 0x22 # '': '' @ CHR 0x22 #
                     concat (map (\<lambda>c. if c = LF then [CHR 0x5C, CHR ''n''] else [c]) (tokens sc ! i)) @
                     CHR 0x22 # ''}, '' @ CHR 0x22 # ''finish_reason'' @ CHR 0x22 #
                     '': null}]}'' @ [LF, LF])"
proof -
  define cid where "cid = ''chatcmpl-demo-'' @ str_int (clk 0)"
  have qcid: "json_string cid = CHR 0x22 # ''chatcmpl-demo-'' @ str_int (clk 0) @ [CHR 0x22]"
    unfolding cid_def by (rule json_string_chunk_id)
  have ev: "generate_sse_event (clk (Suc i)) cid (Some (tokens sc ! i)) None
              = ''data: {'' @ CHR 0x22 # ''id'' @ CHR 0x22 # '': '' @ CHR 0x22 #
                ''chatcmpl-demo-'' @ str_int (clk 0) @ CHR 0x22 # '', '' @ CHR 0x22 #
                ''object'' @ CHR 0x22 # '': '' @ CHR 0x22 # ''chat.completion.chunk'' @
                CHR 0x22 # '', '' @ CHR 0x22 # ''created'' @ CHR 0x22 # '': '' @
                str_int (clk (Suc i)) @ '', '' @ CHR 0x22 # ''model'' @ CHR 0x22 # '': '' @
                CHR 0x22 # ''gpt-4'' @ CHR 0x22 # '', '' @ CHR 0x22 # ''choices'' @ CHR 0x22 #
                '': [{'' @ CHR 0x22 # ''index'' @ CHR 0x22 # '': 0, '' @ CHR 0x22 # ''delta'' @
                CHR 0x22 # '': {'' @ CHR 0x22 # ''content'' @ CHR 0x22 # '': '' @ CHR 0x22 #
                concat (map (\<lambda>c. if c = LF then [CHR 0x5C, CHR ''n''] else [c]) (tokens sc ! i)) @
                CHR 0x22 # ''}, '' @ CHR 0x22 # ''finish_reason'' @ CHR 0x22 # '': null}]}'' @
                [LF, LF]"
    if "i < length (tokens sc)" for i
  proof -
    from that have "tokens sc ! i \<noteq> []"
      using table_tokens_nonempty [OF assms] by (metis nth_mem)
    from token_event_text [OF this qcid json_string_token [OF assms that]]
    show ?thesis by simp
  qed
  have fin: "generate_sse_event (clk (Suc (length (tokens sc)))) cid None (Some (finish_reason sc))
              = ''data: {'' @ CHR 0x22 # ''id'' @ CHR 0x22 # '': '' @ CHR 0x22 #
                ''chatcmpl-demo-'' @ str_int (clk 0) @ CHR 0x22 # '', '' @ CHR 0x22 #
                ''object'' @ CHR 0x22 # '': '' @ CHR 0x22 # ''chat.completion.chunk'' @
                CHR 0x22 # '', '' @ CHR 0x22 # ''created'' @ CHR 0x22 # '': '' @
                str_int (clk (Suc (length (tokens sc)))) @ '', '' @ CHR 0x22 # ''model'' @
                CHR 0x22 # '': '' @ CHR 0x22 # ''gpt-4'' @ CHR 0x22 # '', '' @ CHR 0x22 #
                ''choices'' @ CHR 0x22 # '': [{'' @ CHR 0x22 # ''index'' @ CHR 0x22 #
                '': 0, '' @ CHR 0x22 # ''delta'' @ CHR 0x22 # '': {}, '' @ CHR 0x22 #
                ''finish_reason'' @ CHR 0x22 # '': '' @ CHR 0x22 # finish_reason sc @ CHR 0x22 #
                ''}]}'' @ [LF, LF]"
    using final_event_text [OF qcid json_string_finish_reason [OF assms]] by simp
  have sim: "simulate_sse_stream clk key show_raw
               = Inr (token_events clk 1 cid (tokens sc)
                      @ [(generate_sse_event (clk (Suc (length (tokens sc)))) cid None
                            (Some (finish_reason sc)), None),
                         (''data: [DONE]'' @ [LF, LF], None)])"
    unfolding cid_def by (rule simulate_known [OF assms])
  show ?thesis
    unfolding sim
    by (simp add: length_token_events nth_append nth_token_events ev fin)
qed

theorem final_chunk_carries_finish_reason_witness:
  "map_of SIMULATED_RESPONSES ''blocked'' \<noteq> None
   \<and> (\<exists>items. simulate_sse_stream int ''blocked'' False = Inr items
         \<and> length items = 13
         \<and> items ! 11
             = (''data: {'' @ CHR 0x22 # ''id'' @ CHR 0x22 # '': '' @ CHR 0x22 #
                ''chatcmpl-demo-'' @ ''0'' @ CHR 0x22 # '', '' @ CHR 0x22 # ''object'' @
                CHR 0x22 # '': '' @ CHR 0x22 # ''chat.completion.chunk'' @ CHR 0x22 # '', '' @
                CHR 0x22 # ''created'' @ CHR 0x22 # '': '' @ ''12'' @ '', '' @ CHR 0x22 #
                ''model'' @ CHR 0x22 # '': '' @ CHR 0x22 # ''gpt-4'' @ CHR 0x22 # '', '' @
                CHR 0x22 # ''choices'' @ CHR 0x22 # '': [{'' @ CHR 0x22 # ''index'' @ CHR 0x22 #
                '': 0, '' @ CHR 0x22 # ''delta'' @ CHR 0x22 # '': {}, '' @ CHR 0x22 #
                ''finish_reason'' @ CHR 0x22 # '': '' @ CHR 0x22 # ''content_filter'' @
                CHR 0x22 # ''}]}'' @ [LF, LF],
                None)
         \<and> fst (items ! 10)
             = ''data: {'' @ CHR 0x22 # ''id'' @ CHR 0x22 # '': '' @ CHR 0x22 #
               ''chatcmpl-demo-'' @ ''0'' @ CHR 0x22 # '', '' @ CHR 0x22 # ''object'' @
               CHR 0x22 # '': '' @ CHR 0x22 # ''chat.completion.chunk'' @ CHR 0x22 # '', '' @
               CHR 0x22 # ''created'' @ CHR 0x22 # '': '' @ ''11'' @ '', '' @ CHR 0x22 #
               ''model'' @ CHR 0x22 # '': '' @ CHR 0x22 # ''gpt-4'' @ CHR 0x22 # '', '' @
               CHR 0x22 # ''choices'' @ CHR 0x22 # '': [{'' @ CHR 0x22 # ''index'' @ CHR 0x22 #
               '': 0, '' @ CHR 0x22 # ''delta'' @ CHR 0x22 # '': {'' @ CHR 0x22 # ''content'' @
               CHR 0x22 # '': '' @ CHR 0x22 # ''.'' @ CHR 0x22 # ''}, '' @ CHR 0x22 #
               ''finish_reason'' @ CHR 0x22 # '': null}]}'' @ [LF, LF])"
proof -
  have digits: "str_int 0 = ''0''" "str_int 11 = ''11''" "str_int 12 = ''12''"
    by code_simp+
  from final_chunk_carries_finish_reason [OF lookup_blocked, of int False]
  obtain items where
    sim: "simulate_sse_stream int ''blocked'' False = Inr items" and
    len: "2 \<le> length items" and
    fin: "items ! (length items - 2)
            = (''data: {'' @ CHR 0x22 # ''id'' @ CHR 0x22 # '': '' @ CHR 0x22 #
               ''chatcmpl-demo-'' @ str_int (int 0) @ CHR 0x22 # '', '' @ CHR 0x22 #
               ''object'' @ CHR 0x22 # '': '' @ CHR 0x22 # ''chat.completion.chunk'' @
               CHR 0x22 # '', '' @ CHR 0x22 # ''created'' @ CHR 0x22 # '': '' @
               str_int (int (Suc 11)) @ '', '' @ CHR 0x22 # ''model'' @ CHR 0x22 # '': '' @
               CHR 0x22 # ''gpt-4'' @ CHR 0x22 # '', '' @ CHR 0x22 # ''choices'' @ CHR 0x22 #
               '': [{'' @ CHR 0x22 # ''index'' @ CHR 0x22 # '': 0, '' @ CHR 0x22 # ''delta'' @
               CHR 0x22 # '': {}, '' @ CHR 0x22 # ''finish_reason'' @ CHR 0x22 # '': '' @
               CHR 0x22 # ''content_filter'' @ CHR 0x22 # ''}]}'' @ [LF, LF],
               None)" and
    tok: "\<forall>i<length items - 2.
            fst (items ! i)
              = ''data: {'' @ CHR 0x22 # ''id'' @ CHR 0x22 # '': '' @ CHR 0x22 #
                ''chatcmpl-demo-'' @ str_int (int 0) @ CHR 0x22 # '', '' @ CHR 0x22 #
                ''object'' @ CHR 0x22 # '': '' @ CHR 0x22 # ''chat.completion.chunk'' @
                CHR 0x22 # '', '' @ CHR 0x22 # ''created'' @ CHR 0x22 # '': '' @
                str_int (int (Suc i)) @ '', '' @ CHR 0x22 # ''model'' @ CHR 0x22 # '': '' @
                CHR 0x22 # ''gpt-4'' @ CHR 0x22 # '', '' @ CHR 0x22 # ''choices'' @ CHR 0x22 #
                '': [{'' @ CHR 0x22 # ''index'' @ CHR 0x22 # '': 0, '' @ CHR 0x22 # ''delta'' @
                CHR 0x22 # '': {'' @ CHR 0x22 # ''content'' @ CHR 0x22 # '': '' @ CHR 0x22 #
                concat (map (\<lambda>c. if c = LF then [CHR 0x5C, CHR ''n''] else [c]) ([''I'', '' cannot'', '' assist'', '' with'', '' that'', '' request'', '' due'',
                        '' to'', '' safety'', '' policies'', ''.''] ! i)) @
                CHR 0x22 # ''}, '' @ CHR 0x22 # ''finish_reason'' @ CHR 0x22 # '': null}]}'' @
                [LF, LF]"
    by auto
  have l13: "length items = 13"
    using simulated_stream_length [OF lookup_blocked sim] by simp
  from fin l13 have a: "items ! 11
             = (''data: {'' @ CHR 0x22 # ''id'' @ CHR 0x22 # '': '' @ CHR 0x22 #
                ''chatcmpl-demo-'' @ ''0'' @ CHR 0x22 # '', '' @ CHR 0x22 # ''object'' @
                CHR 0x22 # '': '' @ CHR 0x22 # ''chat.completion.chunk'' @ CHR 0x22 # '', '' @
                CHR 0x22 # ''created'' @ CHR 0x22 # '': '' @ ''12'' @ '', '' @ CHR 0x22 #
                ''model'' @ CHR 0x22 # '': '' @ CHR 0x22 # ''gpt-4'' @ CHR 0x22 # '', '' @
                CHR 0x22 # ''choices'' @ CHR 0x22 # '': [{'' @ CHR 0x22 # ''index'' @ CHR 0x22 #
                '': 0, '' @ CHR 0x22 # ''delta'' @ CHR 0x22 # '': {}, '' @ CHR 0x22 #
                ''finish_reason'' @ CHR 0x22 # '': '' @ CHR 0x22 # ''content_filter'' @
                CHR 0x22 # ''}]}'' @ [LF, LF],
                None)"
    by (simp add: digits)
  from tok [rule_format, of 10] l13 have b: "fst (items ! 10)
             = ''data: {'' @ CHR 0x22 # ''id'' @ CHR 0x22 # '': '' @ CHR 0x22 #
               ''chatcmpl-demo-'' @ ''0'' @ CHR 0x22 # '', '' @ CHR 0x22 # ''object'' @
               CHR 0x22 # '': '' @ CHR 0x22 # ''chat.completion.chunk'' @ CHR 0x22 # '', '' @
               CHR 0x22 # ''created'' @ CHR 0x22 # '': '' @ ''11'' @ '', '' @ CHR 0x22 #
               ''model'' @ CHR 0x22 # '': '' @ CHR 0x22 # ''gpt-4'' @ CHR 0x22 # '', '' @
               CHR 0x22 # ''choices'' @ CHR 0x22 # '': [{'' @ CHR 0x22 # ''index'' @ CHR 0x22 #
               '': 0, '' @ CHR 0x22 # ''delta'' @ CHR 0x22 # '': {'' @ CHR 0x22 # ''content'' @
               CHR 0x22 # '': '' @ CHR 0x22 # ''.'' @ CHR 0x22 # ''}, '' @ CHR 0x22 #
               ''finish_reason'' @ CHR 0x22 # '': null}]}'' @ [LF, LF]"
    by (simp add: digits LF_def)
  from sim l13 a b lookup_blocked show ?thesis by simp
qed

text \<open>
  Claim C3. For every key of the table the parsed display ends with the line that reports
  the redactions, and the number it reports is the number of tokens emitted by the stream
  that contain \<open>[REDACTED]\<close>.
\<close>

theorem redaction_count_matches_tokens:
  assumes "map_of SIMULATED_RESPONSES key = Some sc"
  shows "\<exists>items printed.
           simulate_sse_stream clk key False = Inr items
         \<and> run_simulated_stream clk key False = Inr printed
         \<and> last printed
             = println (''  redactions: ''
                 @ str_int (int (length (filter (py_in ''[REDACTED]'')
                                           (List.map_filter snd items)))))"
proof -
  obtain items where items: "simulate_sse_stream clk key False = Inr items"
    using simulate_known [OF assms] by blast
  have "run_simulated_stream clk key False
          = Inr ([println (DIM @ ''Prompt: '' @ prompt sc @ RESET)]
                 @ out (parsed_loop \<lparr>redaction_count = 0, seen_finish_reason = None,
                                     out = [GREEN @ ''Response: '' @ RESET]\<rparr> items)
                 @ [println [],
                    println ([LF] @ CYAN @ ''--- Stream Complete ---'' @ RESET),
                    println (''  finish_reason: ''
                       @ py_or (seen_finish_reason
                                 (parsed_loop \<lparr>redaction_count = 0, seen_finish_reason = None,
                                     out = [GREEN @ ''Response: '' @ RESET]\<rparr> items))
                               (finish_reason sc)),
                    println (''  redactions: ''
                       @ str_int (redaction_count
                                 (parsed_loop \<lparr>redaction_count = 0, seen_finish_reason = None,
                                     out = [GREEN @ ''Response: '' @ RESET]\<rparr> items)))])"
    using assms items by (simp add: run_simulated_stream_def Let_def)
  then show ?thesis
    using items by (simp add: parsed_loop_count)
qed

theorem redaction_count_matches_tokens_witness:
  "map_of SIMULATED_RESPONSES ''pii_redacted'' \<noteq> None
   \<and> (\<exists>printed. run_simulated_stream int ''pii_redacted'' False = Inr printed
         \<and> last printed = println ''  redactions: 2'')"
proof -
  from redaction_count_matches_tokens [OF lookup_pii, of int]
  obtain items printed where
    sim: "simulate_sse_stream int ''pii_redacted'' False = Inr items" and
    run: "run_simulated_stream int ''pii_redacted'' False = Inr printed" and
    rep: "last printed
            = println (''  redactions: ''
                @ str_int (int (length (filter (py_in ''[REDACTED]'')
                                          (List.map_filter snd items)))))"
    by blast
  have toks: "List.map_filter snd items
                = [''Your'', '' account'', '' email'', '' is'', '' [REDACTED]'', '' and'',
                   '' phone'', '' is'', '' [REDACTED]'', ''.'']"
    using emitted_tokens [OF lookup_pii sim] by simp
  have cnt: "length (filter (py_in ''[REDACTED]'')
                [''Your'', '' account'', '' email'', '' is'', '' [REDACTED]'', '' and'',
                 '' phone'', '' is'', '' [REDACTED]'', ''.'']) = 2"
    by code_simp
  have two: "str_int 2 = ''2''" by code_simp
  from rep have "last printed = println ''  redactions: 2''"
    unfolding toks cnt by (simp add: two)
  with run lookup_pii show ?thesis by simp
qed

subsection \<open>Claims about the live stream\<close>

text \<open>
  Claim C8, as amended. The claim as written fails in raw mode when only the openai
  library is absent. When the requests library is absent the function reports it and
  returns without any request, in both modes. When requests is there and openai is
  absent, the parsed mode reports the absence of openai and returns once the POST has
  answered; the raw mode does not depend on whether openai is available.
\<close>

theorem optional_dependency_checks:
  assumes "req = \<lparr>url = proxy_url @ ''/v1/chat/completions'',
                   authorization = ''Bearer '' @ api_key,
                   payload = JObj [(''model'', JStr model), (''messages'', messages_of prompt_text),
                                   (''stream'', JBool True)]\<rparr>"
  shows "(\<not> REQUESTS_AVAILABLE e \<longrightarrow>
            stream_real_sse e proxy_url api_key prompt_text model show_raw
              = \<lparr>console = [println (RED @ ''requests library not available'' @ RESET)],
                 calls = [], raised = None\<rparr>)
       \<and> (REQUESTS_AVAILABLE e \<and> \<not> OPENAI_AVAILABLE e \<and> requests_post e = Inr resp \<longrightarrow>
            stream_real_sse e proxy_url api_key prompt_text model False
              = \<lparr>console = [println (DIM @ ''Prompt: '' @ prompt_text @ RESET),
                            println (RED @ ''openai library not available'' @ RESET)],
                 calls = [Post req], raised = None\<rparr>)
       \<and> stream_real_sse (e\<lparr>OPENAI_AVAILABLE := b\<rparr>) proxy_url api_key prompt_text model True
           = stream_real_sse e proxy_url api_key prompt_text model True"
proof -
  have a: "\<not> REQUESTS_AVAILABLE e \<longrightarrow>
            stream_real_sse e proxy_url api_key prompt_text model show_raw
              = \<lparr>console = [println (RED @ ''requests library not available'' @ RESET)],
                 calls = [], raised = None\<rparr>"
    by (simp add: stream_real_sse_def)
  have b: "REQUESTS_AVAILABLE e \<and> \<not> OPENAI_AVAILABLE e \<and> requests_post e = Inr resp \<longrightarrow>
            stream_real_sse e proxy_url api_key prompt_text model False
              = \<lparr>console = [println (DIM @ ''Prompt: '' @ prompt_text @ RESET),
                            println (RED @ ''openai library not available'' @ RESET)],
                 calls = [Post req], raised = None\<rparr>"
    unfolding assms by (simp add: stream_real_sse_def Let_def)
  have c: "stream_real_sse (e\<lparr>OPENAI_AVAILABLE := b\<rparr>) proxy_url api_key prompt_text model True
           = stream_real_sse e proxy_url api_key prompt_text model True"
    by (cases "requests_post e") (simp_all add: stream_real_sse_def)
  from a b c show ?thesis by blast
qed

theorem optional_dependency_checks_witness:
  "stream_real_sse
      \<lparr>REQUESTS_AVAILABLE = False, OPENAI_AVAILABLE = True,
       requests_post = Inl ConnectionError, chat_completions_create = Inl ConnectionError\<rparr>
      ''http://localhost:8080'' ''sk-test'' ''What is 2 + 2?'' ''gpt-4'' True
     = \<lparr>console = [println (RED @ ''requests library not available'' @ RESET)],
        calls = [], raised = None\<rparr>
   \<and> stream_real_sse
      \<lparr>REQUESTS_AVAILABLE = True, OPENAI_AVAILABLE = False,
       requests_post = Inr \<lparr>status_code = 200,
                             headers_get = map_of [(''Content-Type'', ''text/event-stream'')],
                             iter_lines = ([Some ''data: [DONE]''], None)\<rparr>,
       chat_completions_create = Inl ConnectionError\<rparr>
      ''http://localhost:8080'' ''sk-test'' ''What is 2 + 2?'' ''gpt-4'' False
     = \<lparr>console = [println (DIM @ ''Prompt: What is 2 + 2?'' @ RESET),
                   println (RED @ ''openai library not available'' @ RESET)],
        calls = [Post \<lparr>url = ''http://localhost:8080/v1/chat/completions'',
                       authorization = ''Bearer sk-test'',
                       payload = JObj [(''model'', JStr ''gpt-4''),
                                       (''messages'', messages_of ''What is 2 + 2?''),
                                       (''stream'', JBool True)]\<rparr>],
        raised = None\<rparr>"
  using
    optional_dependency_checks [OF refl,
      where e = "\<lparr>REQUESTS_AVAILABLE = False, OPENAI_AVAILABLE = True,
           requests_post = Inl ConnectionError, chat_completions_create = Inl ConnectionError\<rparr>"
        and proxy_url = "''http://localhost:8080''" and api_key = "''sk-test''"
        and prompt_text = "''What is 2 + 2?''" and model = "''gpt-4''" and show_raw = True]
    optional_dependency_checks [OF refl,
      where e = "\<lparr>REQUESTS_AVAILABLE = True, OPENAI_AVAILABLE = False,
           requests_post = Inr \<lparr>status_code = 200,
                                 headers_get = map_of [(''Content-Type'', ''text/event-stream'')],
                                 iter_lines = ([Some ''data: [DONE]''], None)\<rparr>,
           chat_completions_create = Inl ConnectionError\<rparr>"
        and resp = "\<lparr>status_code = 200,
           headers_get = map_of [(''Content-Type'', ''text/event-stream'')],
           iter_lines = ([Some ''data: [DONE]''], None)\<rparr>"
        and proxy_url = "''http://localhost:8080''" and api_key = "''sk-test''"
        and prompt_text = "''What is 2 + 2?''" and model = "''gpt-4''"]
  by simp

text \<open>
  Claim C8 as written, in raw mode with openai absent: the lines of the stream are
  printed, and the absence of openai is not reported.
\<close>

theorem raw_mode_streams_without_openai:
  "stream_real_sse
      \<lparr>REQUESTS_AVAILABLE = True, OPENAI_AVAILABLE = False,
       requests_post = Inr \<lparr>status_code = 200,
                             headers_get = map_of [(''Content-Type'', ''text/event-stream'')],
                             iter_lines = ([Some ''data: hello'', Some ''data: [DONE]''], None)\<rparr>,
       chat_completions_create = Inl ConnectionError\<rparr>
      ''http://localhost:8080'' ''sk-test'' ''What is 2 + 2?'' ''gpt-4'' True
     = \<lparr>console = [println (DIM @ ''Prompt: What is 2 + 2?'' @ RESET),
                   println ([LF] @ DIM @ ''HTTP 200'' @ RESET),
                   println (DIM @ ''Content-Type: text/event-stream'' @ RESET),
                   println ([LF] @ DIM @ ''--- SSE STREAM ---'' @ RESET),
                   println (GREEN @ ''data: hello'' @ RESET),
                   println (YELLOW @ ''data: [DONE]'' @ RESET),
                   println (DIM @ ''--- END STREAM ---'' @ RESET)],
        calls = [Post \<lparr>url = ''http://localhost:8080/v1/chat/completions'',
                       authorization = ''Bearer sk-test'',
                       payload = JObj [(''model'', JStr ''gpt-4''),
                                       (''messages'', messages_of ''What is 2 + 2?''),
                                       (''stream'', JBool True)]\<rparr>],
        raised = None\<rparr>"
proof -
  have s200: "str_int 200 = ''200''" by code_simp
  show ?thesis
    by (simp add: stream_real_sse_def Let_def s200 str_opt_def)
qed

end
